theory Spec2Isabelle
  imports Complex_Main "HOL-Library.Sublist"
begin

section \<open>Data model\<close>

text \<open>
  JavaScript numbers that hold timestamps (milliseconds), day counts and scores are
  integers well below \<open>2^53\<close>, where double arithmetic is exact; they are modelled as
  \<open>int\<close>. A storage key or object field that may be \<open>undefined\<close> is an \<open>option\<close>.
\<close>

text \<open>The \<open>activeSession\<close> object built by \<open>startBlockSession\<close> and extended by
  \<open>updateSession\<close> (\<open>lastDailyBonus\<close>).\<close>

record session =
  startTime :: int
  endTime :: int
  duration :: int
  blockedSites :: "string list"
  emergencyAttempts :: "int option"
  lastDailyBonus :: "int option"

text \<open>An element of \<open>stats.progressHistory\<close>.\<close>

record progress =
  date :: int
  streak :: int
  daysCompleted :: int

record stats =
  totalCleanDays :: int
  bestStreak :: int
  sessionsCompleted :: int
  progressHistory :: "progress list option"

text \<open>The keys of \<open>chrome.storage.local\<close> that the background script reads and writes.\<close>

record storage =
  stored_currentStreak :: "int option"
  stored_totalScore :: "int option"
  stored_activeSession :: "session option"
  stored_stats :: "stats option"

text \<open>\<open>x || 0\<close> on a number that may be \<open>undefined\<close>.\<close>

definition or0 :: "int option \<Rightarrow> int" where
  "or0 x = (case x of None \<Rightarrow> 0 | Some v \<Rightarrow> v)"

section \<open>background.js\<close>

text \<open>\<open>data.stats || { totalCleanDays: 0, bestStreak: 0, sessionsCompleted: 0 }\<close>\<close>

definition stats_or_default :: "stats option \<Rightarrow> stats" where
  "stats_or_default x =
     (case x of
        None \<Rightarrow> \<lparr>totalCleanDays = 0, bestStreak = 0, sessionsCompleted = 0,
                  progressHistory = None\<rparr>
      | Some s \<Rightarrow> s)"

text \<open>\<open>NoCornBackground.completeSession(session)\<close>; \<open>now\<close> is the value of \<open>Date.now()\<close>
  (read once: the calls inside one run differ by no more than the run's own time).\<close>

definition completeSession :: "int \<Rightarrow> session \<Rightarrow> storage \<Rightarrow> storage" where
  "completeSession now s data =
     (let daysCompleted = (now - startTime s) div (24 * 60 * 60 * 1000);
          completionBonus = daysCompleted * 100;
          newStreak = or0 (stored_currentStreak data) + daysCompleted;
          newScore = or0 (stored_totalScore data) + completionBonus;
          st = stats_or_default (stored_stats data);
          st' = st\<lparr>totalCleanDays := totalCleanDays st + daysCompleted,
                    bestStreak := max (bestStreak st) newStreak,
                    sessionsCompleted := sessionsCompleted st + 1,
                    progressHistory :=
                      Some ((case progressHistory st of None \<Rightarrow> [] | Some h \<Rightarrow> h)
                            @ [\<lparr>date = now, streak = newStreak,
                                 daysCompleted = daysCompleted\<rparr>])\<rparr>
      in data\<lparr>stored_currentStreak := Some newStreak,
               stored_totalScore := Some newScore,
               stored_stats := Some st',
               stored_activeSession := None\<rparr>)"

text \<open>\<open>NoCornBackground.updateSession()\<close>, the hourly alarm handler.\<close>

definition updateSession :: "int \<Rightarrow> storage \<Rightarrow> storage" where
  "updateSession now data =
     (case stored_activeSession data of
        None \<Rightarrow> data
      | Some a \<Rightarrow>
          if now \<ge> endTime a then completeSession now a data
          else
            let hoursElapsed = (now - startTime a) div (60 * 60 * 1000);
                dailyBonus = (hoursElapsed div 24) * 10
            in if dailyBonus > or0 (lastDailyBonus a) then
                 let bonusPoints = dailyBonus - or0 (lastDailyBonus a)
                 in data\<lparr>stored_activeSession := Some (a\<lparr>lastDailyBonus := Some dailyBonus\<rparr>),
                          stored_totalScore := Some (or0 (stored_totalScore data) + bonusPoints)\<rparr>
               else data)"

text \<open>The vocabulary of the specification, read off the stored session: the code keeps
  the last granted bonus in points (\<open>lastDailyBonus\<close>, ten per day), the specification
  speaks of the day index.\<close>

definition daysElapsed :: "int \<Rightarrow> session \<Rightarrow> int" where
  "daysElapsed now a = (now - startTime a) div 86400000"

definition lastDailyBonusDay :: "session \<Rightarrow> int" where
  "lastDailyBonusDay a = or0 (lastDailyBonus a) div 10"

definition score :: "storage \<Rightarrow> int" where
  "score data = or0 (stored_totalScore data)"

text \<open>A run of ticks, one at each of the given clock values.\<close>

fun ticks :: "int list \<Rightarrow> storage \<Rightarrow> storage" where
  "ticks [] data = data"
| "ticks (t # ts) data = ticks ts (updateSession t data)"

text \<open>A session of one day that started at time 0, and a storage holding it.\<close>

definition day_session :: session where
  "day_session = \<lparr>startTime = 0, endTime = 86400000, duration = 1,
                   blockedSites = [''example.com''], emergencyAttempts = Some 0,
                   lastDailyBonus = None\<rparr>"

definition week_session :: session where
  "week_session = \<lparr>startTime = 0, endTime = 604800000, duration = 7,
                    blockedSites = [''example.com''], emergencyAttempts = Some 0,
                    lastDailyBonus = None\<rparr>"

definition storage_of :: "session \<Rightarrow> storage" where
  "storage_of a = \<lparr>stored_currentStreak = Some 4, stored_totalScore = Some 300,
                    stored_activeSession = Some a, stored_stats = None\<rparr>"

text \<open>\<open>NoCornBackground.extractDomain(url)\<close>. The browser's \<open>new URL(url).hostname\<close>
  is a parameter: \<open>hostname_of url\<close> is \<open>None\<close> where the constructor throws.
  \<open>replace(/^www\./, '')\<close> removes one leading \<open>www.\<close>.\<close>

definition extractDomain :: "(string \<Rightarrow> string option) \<Rightarrow> string \<Rightarrow> string" where
  "extractDomain hostname_of url =
     (case hostname_of url of
        None \<Rightarrow> []
      | Some h \<Rightarrow> if prefix ''www.'' h then drop 4 h else h)"

text \<open>\<open>domain.includes(site)\<close>: \<open>site\<close> occurs in \<open>domain\<close> as a substring.\<close>

fun str_includes :: "string \<Rightarrow> string \<Rightarrow> bool" where
  "str_includes [] site = (site = [])"
| "str_includes (c # cs) site = (prefix site (c # cs) \<or> str_includes cs site)"

text \<open>The object that \<open>getBlockingStatus\<close> returns; the inactive branch has only
  \<open>blocked\<close>.\<close>

record blocking_status =
  blocked :: bool
  site :: "string option"
  timeRemaining :: "int option"

text \<open>\<open>NoCornBackground.getBlockingStatus(url)\<close>\<close>

definition getBlockingStatus ::
  "(string \<Rightarrow> string option) \<Rightarrow> int \<Rightarrow> string \<Rightarrow> storage \<Rightarrow> blocking_status" where
  "getBlockingStatus hostname_of now url data =
     (case stored_activeSession data of
        None \<Rightarrow> \<lparr>blocked = False, site = None, timeRemaining = None\<rparr>
      | Some a \<Rightarrow>
          let domain = extractDomain hostname_of url;
              isBlocked = list_ex (\<lambda>s. str_includes domain s) (blockedSites a)
          in \<lparr>blocked = isBlocked, site = Some domain,
               timeRemaining = Some (endTime a - now)\<rparr>)"

section \<open>scripts/blocked.js: the popup\<close>

text \<open>The fields of \<open>NoCornPopup\<close> that the session functions use; \<open>siteList\<close> is
  \<open>this.blockedSites\<close>, the live list, as opposed to the snapshot inside a session.\<close>

record popup =
  currentStreak :: int
  totalScore :: int
  siteList :: "string list"
  activeSession :: "session option"
  popupStats :: stats

text \<open>What the duration form holds when the start button is pressed: the result of
  \<open>parseInt\<close> on the custom field (\<open>None\<close> is \<open>NaN\<close>), or the numeric value of the
  chosen preset option.\<close>

datatype duration_choice = Custom "int option" | Preset int

text \<open>The early returns of \<open>startBlockSession\<close>, named as the specification names them:
  the warning `Add at least one site to block', the warning `Please enter a valid number
  of days (1-365)', and a declined confirmation dialog.\<close>

datatype start_error = EmptySiteList | InvalidDuration | NotConfirmed

text \<open>Reading a property of \<open>this.activeSession\<close> when it is \<open>null\<close> throws.\<close>

datatype js_error = TypeError

text \<open>\<open>NoCornPopup.completeSession()\<close>\<close>

definition popup_completeSession :: "int \<Rightarrow> popup \<Rightarrow> js_error + popup" where
  "popup_completeSession now p =
     (case activeSession p of
        None \<Rightarrow> Inl TypeError
      | Some a \<Rightarrow>
          let days = (now - startTime a) div (24 * 60 * 60 * 1000);
              newStreak = currentStreak p + days;
              st = popupStats p
          in Inr (p\<lparr>currentStreak := newStreak,
                    popupStats :=
                      st\<lparr>totalCleanDays := totalCleanDays st + days,
                         bestStreak := max (bestStreak st) newStreak,
                         sessionsCompleted := sessionsCompleted st + 1\<rparr>,
                    totalScore := totalScore p + days * 100,
                    activeSession := None\<rparr>))"

text \<open>The part of \<open>NoCornPopup.updateDisplay()\<close> that changes the state:
  \<open>updateBlockStatus\<close> completes a session whose remaining time is not positive.
  (\<open>completeSession\<close> itself ends with \<open>updateDisplay\<close>, which then finds no session.)\<close>

definition updateDisplay :: "int \<Rightarrow> popup \<Rightarrow> popup" where
  "updateDisplay now p =
     (case activeSession p of
        None \<Rightarrow> p
      | Some a \<Rightarrow>
          if endTime a - now > 0 then p
          else case popup_completeSession now p of Inl e \<Rightarrow> p | Inr p' \<Rightarrow> p')"

text \<open>\<open>NoCornPopup.startBlockSession()\<close>; \<open>confirmed\<close> is the answer of the confirmation
  dialog, \<open>now\<close> the value of \<open>Date.now()\<close> (read once: the run takes far less than
  a day).\<close>

definition startBlockSession ::
  "int \<Rightarrow> duration_choice \<Rightarrow> bool \<Rightarrow> popup \<Rightarrow> start_error + popup" where
  "startBlockSession now choice confirmed p =
     (if length (siteList p) = 0 then Inl EmptySiteList
      else
        case (case choice of
                Custom None \<Rightarrow> Inl InvalidDuration
              | Custom (Some days) \<Rightarrow>
                  if days = 0 \<or> days < 1 \<or> days > 365 then Inl InvalidDuration
                  else Inr days
              | Preset days \<Rightarrow> Inr days) of
          Inl e \<Rightarrow> Inl e
        | Inr days \<Rightarrow>
            if \<not> confirmed then Inl NotConfirmed
            else
              let start = now;
                  finish = start + days * 24 * 60 * 60 * 1000
              in Inr (updateDisplay now
                        (p\<lparr>activeSession :=
                             Some \<lparr>startTime = start, endTime = finish, duration = days,
                                   blockedSites = siteList p, emergencyAttempts = Some 0,
                                   lastDailyBonus = None\<rparr>,
                           totalScore := totalScore p + days * 50\<rparr>)))"

text \<open>What \<open>attemptEmergencyDisable\<close> shows: the disable form or the motivational
  intervention.\<close>

datatype attempt_outcome = EmergencyForm | Intervention

text \<open>\<open>NoCornPopup.attemptEmergencyDisable()\<close>\<close>

definition attemptEmergencyDisable :: "popup \<Rightarrow> js_error + attempt_outcome \<times> popup" where
  "attemptEmergencyDisable p =
     (case activeSession p of
        None \<Rightarrow> Inl TypeError
      | Some a \<Rightarrow>
          let n = or0 (emergencyAttempts a) + 1;
              a' = a\<lparr>emergencyAttempts := Some n\<rparr>
          in Inr (if n \<ge> 3 then EmergencyForm else Intervention,
                  p\<lparr>activeSession := Some a'\<rparr>))"

text \<open>The \<open>emergencyLog\<close> object stored as \<open>lastEmergencyDisable\<close>.\<close>

record emergency_log =
  log_timestamp :: int
  reason :: string
  sessionDuration :: int
  penalty :: int

text \<open>\<open>NoCornPopup.performEmergencyDisable(reason)\<close>. The click handler of the form's
  confirm button passes the text area's value on as it is. Without an active session
  the function throws when it reads the session's start time; what it has assigned to
  its fields before that is never stored.\<close>

definition performEmergencyDisable ::
  "int \<Rightarrow> string \<Rightarrow> popup \<Rightarrow> js_error + popup \<times> emergency_log" where
  "performEmergencyDisable now r p =
     (case activeSession p of
        None \<Rightarrow> Inl TypeError
      | Some a \<Rightarrow>
          Inr (p\<lparr>currentStreak := 0,
                 totalScore := max 0 (totalScore p - 500),
                 activeSession := None\<rparr>,
               \<lparr>log_timestamp = now, reason = r,
                sessionDuration = now - startTime a, penalty = 500\<rparr>))"

text \<open>Invoking \<open>attemptEmergencyDisable\<close> \<open>n\<close> times in a row (the form and the intervention
  can both be dismissed, which leaves the session active).\<close>

fun attempt_times :: "nat \<Rightarrow> popup \<Rightarrow> js_error + popup" where
  "attempt_times 0 p = Inr p"
| "attempt_times (Suc n) p =
     (case attemptEmergencyDisable p of
        Inl e \<Rightarrow> Inl e
      | Inr (out, p') \<Rightarrow> attempt_times n p')"

text \<open>A popup with 300 points, a streak of five days and an active week-long session.\<close>

definition popup300 :: popup where
  "popup300 = \<lparr>currentStreak = 5, totalScore = 300, siteList = [''example.com''],
                activeSession = Some week_session,
                popupStats = \<lparr>totalCleanDays = 0, bestStreak = 5, sessionsCompleted = 0,
                              progressHistory = None\<rparr>\<rparr>"

text \<open>The same popup after \<open>n\<close> emergency attempts.\<close>

definition popup_at :: "int \<Rightarrow> popup" where
  "popup_at n = popup300\<lparr>activeSession := Some (week_session\<lparr>emergencyAttempts := Some n\<rparr>)\<rparr>"

section \<open>src/security/SupabaseSecuritySystem.js\<close>

text \<open>The errors that the security system throws.\<close>

datatype security_error =
    RateLimitExceeded string
  | InvalidSessionDuration
  | SessionAlreadyActive
  | MaxEmergencyAttempts
  | QueryError string

text \<open>The table \<open>limits\<close> of \<open>checkRateLimit\<close>: maximum count and window in
  milliseconds.\<close>

definition limits :: "(string \<times> nat \<times> int) list" where
  "limits =
     [(''add_site'', 5, 60 * 60 * 1000),
      (''panic_mode'', 3, 30 * 60 * 1000),
      (''emergency_resist'', 10, 60 * 60 * 1000),
      (''session_start'', 3, 24 * 60 * 60 * 1000)]"

text \<open>\<open>limits\<close> and \<open>pointRules\<close> are object literals, and \<open>obj[action]\<close> also finds
  the properties that every object inherits from \<open>Object.prototype\<close>: functions, and
  the prototype itself under \<open>__proto__\<close>.\<close>

definition object_prototype_names :: "string list" where
  "object_prototype_names =
     [''constructor'', ''toString'', ''toLocaleString'', ''valueOf'', ''hasOwnProperty'',
      ''isPrototypeOf'', ''propertyIsEnumerable'', ''__proto__'', ''__defineGetter__'',
      ''__defineSetter__'', ''__lookupGetter__'', ''__lookupSetter__'']"

text \<open>\<open>SupabaseSecuritySystem.checkRateLimit(action)\<close>; the state is the map
  \<open>this.rateLimits\<close>, keyed by \<open>action_userId\<close>. For an inherited name \<open>limit\<close> is
  truthy with \<open>max\<close> and \<open>window\<close> undefined: every comparison is false, no old attempt
  is kept, and the call records the time and passes.\<close>

definition checkRateLimit ::
  "int \<Rightarrow> string \<Rightarrow> string \<Rightarrow> (string \<rightharpoonup> int list)
     \<Rightarrow> security_error + (string \<rightharpoonup> int list)" where
  "checkRateLimit now userId action rateLimits =
     (case map_of limits action of
        None \<Rightarrow>
          if action \<in> set object_prototype_names
          then Inr (rateLimits(action @ ''_'' @ userId \<mapsto> [now]))
          else Inr rateLimits
      | Some (mx, window) \<Rightarrow>
          let key = action @ ''_'' @ userId;
              attempts = (case rateLimits key of None \<Rightarrow> [] | Some ts \<Rightarrow> ts);
              validAttempts = filter (\<lambda>time. now - time < window) attempts
          in if length validAttempts \<ge> mx then Inl (RateLimitExceeded action)
             else Inr (rateLimits(key \<mapsto> validAttempts @ [now])))"

text \<open>A run of calls for one user and action at the given times, stopping at the first
  error, as \<open>validateAndAwardPoints\<close> does when the check throws.\<close>

fun checkRateLimits ::
  "string \<Rightarrow> string \<Rightarrow> int list \<Rightarrow> (string \<rightharpoonup> int list)
     \<Rightarrow> security_error + (string \<rightharpoonup> int list)" where
  "checkRateLimits userId action [] rl = Inr rl"
| "checkRateLimits userId action (t # ts) rl =
     (case checkRateLimit t userId action rl of
        Inl e \<Rightarrow> Inl e
      | Inr rl' \<Rightarrow> checkRateLimits userId action ts rl')"

text \<open>The fields of the \<open>data\<close> argument that validation and point calculation read.\<close>

record action_data =
  data_duration :: "int option"
  data_daysCompleted :: "int option"
  data_action :: "string option"

text \<open>\<open>SupabaseSecuritySystem.validateSession(data)\<close>; \<open>resp\<close> is the answer to the query
  for the user's active sessions: an error, or the number of rows.\<close>

definition validateSession :: "action_data \<Rightarrow> string + nat \<Rightarrow> security_error + bool" where
  "validateSession d resp =
     (if (case data_duration d of None \<Rightarrow> False | Some n \<Rightarrow> n < 1 \<or> n > 365)
      then Inl InvalidSessionDuration
      else case resp of
             Inl e \<Rightarrow> Inl (QueryError e)
           | Inr rows \<Rightarrow>
               if rows > 0 \<and> data_action d = Some ''start_session''
               then Inl SessionAlreadyActive
               else Inr True)"

text \<open>\<open>SupabaseSecuritySystem.validateEmergencyAttempt()\<close>; \<open>resp\<close> is the answer to the
  query for the \<open>emergency_attempts\<close> of the active session.\<close>

definition validateEmergencyAttempt :: "string + int option \<Rightarrow> security_error + bool" where
  "validateEmergencyAttempt resp =
     (case resp of
        Inl e \<Rightarrow> Inl (QueryError e)
      | Inr n \<Rightarrow> if or0 n \<ge> 3 then Inl MaxEmergencyAttempts else Inr True)"

text \<open>\<open>SupabaseSecuritySystem.getDiminishingReturnsMultiplier(action)\<close>; \<open>resp\<close> is the
  \<open>action_count\<close> of the user's row for the action, \<open>None\<close> on an error or a missing
  row. The decimal literals are rationals: for an integer base, the double product
  rounds to the same floor.\<close>

definition getDiminishingReturnsMultiplier :: "int option \<Rightarrow> rat" where
  "getDiminishingReturnsMultiplier resp =
     (case resp of
        None \<Rightarrow> 1
      | Some count \<Rightarrow>
          if count < 10 then 1
          else if count < 50 then 8 / 10
          else if count < 100 then 6 / 10
          else 4 / 10)"

text \<open>The table \<open>pointRules\<close> of \<open>calculateSecurePoints\<close>; \<open>x || 1\<close> is 1 where \<open>x\<close> is
  missing or 0.\<close>

definition or1 :: "int option \<Rightarrow> int" where
  "or1 x = (case x of None \<Rightarrow> 1 | Some v \<Rightarrow> if v = 0 then 1 else v)"

definition pointRules :: "action_data \<Rightarrow> (string \<times> int) list" where
  "pointRules d =
     [(''add_site'', 10),
      (''start_session'', or1 (data_duration d) * 50),
      (''complete_session'', or1 (data_daysCompleted d) * 100),
      (''daily_bonus'', 10),
      (''emergency_resist'', 25),
      (''panic_mode'', 25)]"

text \<open>\<open>pointRules[action] || 0\<close>: the table value, 0 for a name that is not a
  property, and for an inherited name a function or object, which is \<open>None\<close> here.\<close>

definition basePoints :: "string \<Rightarrow> action_data \<Rightarrow> int option" where
  "basePoints action d =
     (case map_of (pointRules d) action of
        None \<Rightarrow> if action \<in> set object_prototype_names then None else Some 0
      | Some v \<Rightarrow> Some v)"

text \<open>\<open>SupabaseSecuritySystem.calculateSecurePoints(action, data)\<close>; the result
  \<open>None\<close> is \<open>NaN\<close>, the floor of a function or object times the multiplier.\<close>

definition calculateSecurePoints ::
  "string \<Rightarrow> action_data \<Rightarrow> int option \<Rightarrow> int option" where
  "calculateSecurePoints action d resp =
     (case basePoints action d of
        None \<Rightarrow> None
      | Some b \<Rightarrow> Some \<lfloor>of_int b * getDiminishingReturnsMultiplier resp\<rfloor>)"

text \<open>The multiplier in tenths, for stating the result in integer arithmetic.\<close>

definition tenths :: "int \<Rightarrow> int" where
  "tenths count =
     (if count < 10 then 10 else if count < 50 then 8 else if count < 100 then 6 else 4)"

definition no_data :: action_data where
  "no_data = \<lparr>data_duration = None, data_daysCompleted = None, data_action = None\<rparr>"

section \<open>The hash chain\<close>

text \<open>The \<open>blockData\<close> object of \<open>recordToBlockchain\<close>; \<open>bd_timestamp\<close> is the ISO string
  of the recording time, \<open>bd_data\<close> the digest of the action's data.\<close>

record block_data =
  bd_userId :: string
  bd_action :: string
  points :: int
  bd_timestamp :: string
  bd_data :: string
  bd_previousHash :: string

text \<open>The block object of \<open>SimpleBlockchain.createBlock\<close>.\<close>

record block =
  timestamp :: nat
  data :: block_data
  previousHash :: string
  nonce :: nat
  hash :: string

text \<open>A non-negative integer (below \<open>10^21\<close>) as JavaScript turns it into a string
  when it is added to one: its decimal digits.\<close>

fun decimal :: "nat \<Rightarrow> string" where
  "decimal n =
     (if n < 10 then [''0123456789'' ! n]
      else decimal (n div 10) @ [''0123456789'' ! (n mod 10)])"

text \<open>\<open>SimpleBlockchain.calculateHash(block)\<close>. The library functions are parameters:
  \<open>sha256\<close> is \<open>CryptoJS.SHA256(s).toString()\<close> and \<open>stringify\<close> is \<open>JSON.stringify\<close> on
  the block data. The stored \<open>hash\<close> of the block is not read.\<close>

definition calculateHash ::
  "(string \<Rightarrow> string) \<Rightarrow> (block_data \<Rightarrow> string) \<Rightarrow> block \<Rightarrow> string" where
  "calculateHash sha256 stringify b =
     sha256 (previousHash b @ decimal (timestamp b) @ stringify (data b) @ decimal (nonce b))"

text \<open>The proof-of-work loop of \<open>createBlock\<close>. Nothing bounds the number of rounds:
  not returning is the value \<open>None\<close>.\<close>

partial_function (option) proofOfWork ::
  "(string \<Rightarrow> string) \<Rightarrow> (block_data \<Rightarrow> string) \<Rightarrow> nat \<Rightarrow> block \<Rightarrow> block option" where
  "proofOfWork sha256 stringify difficulty b =
     (if take difficulty (hash b) \<noteq> replicate difficulty (CHR ''0'')
      then proofOfWork sha256 stringify difficulty
             (b\<lparr>nonce := nonce b + 1,
                hash := calculateHash sha256 stringify (b\<lparr>nonce := nonce b + 1\<rparr>)\<rparr>)
      else Some b)"

text \<open>\<open>SimpleBlockchain.createBlock(data)\<close>; \<open>now\<close> is the value of \<open>Date.now()\<close>.\<close>

definition createBlock ::
  "(string \<Rightarrow> string) \<Rightarrow> (block_data \<Rightarrow> string) \<Rightarrow> nat \<Rightarrow> nat \<Rightarrow> block_data
     \<Rightarrow> block option" where
  "createBlock sha256 stringify difficulty now d =
     (let b = \<lparr>timestamp = now, data = d, previousHash = bd_previousHash d, nonce = 0,
               hash = []\<rparr>
      in proofOfWork sha256 stringify difficulty
           (b\<lparr>hash := calculateHash sha256 stringify b\<rparr>))"

text \<open>The constructor's \<open>this.difficulty = 2\<close>.\<close>

definition default_difficulty :: nat where
  "default_difficulty = 2"

text \<open>A row of the table \<open>blockchain_blocks\<close>.\<close>

record block_row =
  user_id :: string
  block_hash :: string
  previous_hash :: string
  action_type :: string
  points_awarded :: int
  row_block :: block
  created_at :: nat

text \<open>The query of \<open>getLastBlockHash\<close>: the user's rows, newest first, at most one. The
  table is a list in insertion order; among rows of equal \<open>created_at\<close> the one inserted
  last is taken to be the newest.\<close>

definition select_last_block :: "block_row list \<Rightarrow> string \<Rightarrow> block_row list" where
  "select_last_block table uid =
     take 1 (sort_key (\<lambda>r. - int (created_at r))
               (rev (filter (\<lambda>r. user_id r = uid) table)))"

text \<open>\<open>SupabaseSecuritySystem.getLastBlockHash()\<close>, on the answer to its query.\<close>

definition getLastBlockHash :: "string + block_row list \<Rightarrow> security_error + string" where
  "getLastBlockHash resp =
     (case resp of
        Inl e \<Rightarrow> Inl (QueryError e)
      | Inr rows \<Rightarrow> Inr (if length rows > 0 then block_hash (hd rows) else ''0''))"

text \<open>What one call of \<open>recordToBlockchain\<close> is given besides the table: the action, its
  points, the ISO time string, the digest of the action's data, and \<open>Date.now()\<close>.\<close>

record record_request =
  req_action :: string
  req_points :: int
  req_iso :: string
  req_digest :: string
  req_now :: nat

text \<open>\<open>SupabaseSecuritySystem.recordToBlockchain(action, points, data)\<close> for the user
  \<open>uid\<close>, with the backend reachable (\<open>online\<close>) or not: the new table and the saved
  row, an error, or \<open>None\<close> when the proof of work never ends.\<close>

definition recordToBlockchain ::
  "(string \<Rightarrow> string) \<Rightarrow> (block_data \<Rightarrow> string) \<Rightarrow> bool \<Rightarrow> string \<Rightarrow> record_request
     \<Rightarrow> block_row list \<Rightarrow> (security_error + block_row list \<times> block_row) option" where
  "recordToBlockchain sha256 stringify online uid rq table =
     (case getLastBlockHash
             (if online then Inr (select_last_block table uid) else Inl ''offline'') of
        Inl e \<Rightarrow> Some (Inl e)
      | Inr prev \<Rightarrow>
          let blockData = \<lparr>bd_userId = uid, bd_action = req_action rq,
                           points = req_points rq, bd_timestamp = req_iso rq,
                           bd_data = req_digest rq, bd_previousHash = prev\<rparr>
          in case createBlock sha256 stringify default_difficulty (req_now rq) blockData of
               None \<Rightarrow> None
             | Some b \<Rightarrow>
                 let row = \<lparr>user_id = uid, block_hash = hash b,
                            previous_hash = previousHash b, action_type = req_action rq,
                            points_awarded = req_points rq, row_block = b,
                            created_at = req_now rq\<rparr>
                 in Some (Inr (table @ [row], row)))"

text \<open>Appending a run of requests, stopping at the first error.\<close>

fun recordAll ::
  "(string \<Rightarrow> string) \<Rightarrow> (block_data \<Rightarrow> string) \<Rightarrow> string \<Rightarrow> record_request list
     \<Rightarrow> block_row list \<Rightarrow> (security_error + block_row list) option" where
  "recordAll sha256 stringify uid [] table = Some (Inr table)"
| "recordAll sha256 stringify uid (rq # rqs) table =
     (case recordToBlockchain sha256 stringify True uid rq table of
        None \<Rightarrow> None
      | Some (Inl e) \<Rightarrow> Some (Inl e)
      | Some (Inr (table', row)) \<Rightarrow> recordAll sha256 stringify uid rqs table')"

text \<open>The entries of a user's chain, oldest first: the blocks stored in the user's
  rows.\<close>

definition entries :: "block_row list \<Rightarrow> string \<Rightarrow> block list" where
  "entries table uid = map row_block (filter (\<lambda>r. user_id r = uid) table)"

text \<open>Modelled from the spec: \<open>verifyChain(entries)\<close>, which the repository does not
  contain. `Recomputes each hash and reports the first index where recomputed hash
  \<noteq> stored hash, or "valid" if none.' The recomputation is \<open>calculateHash\<close> of the
  source.\<close>

datatype verdict = Valid | TamperedAt nat

fun verifyFrom ::
  "(string \<Rightarrow> string) \<Rightarrow> (block_data \<Rightarrow> string) \<Rightarrow> nat \<Rightarrow> block list \<Rightarrow> verdict" where
  "verifyFrom sha256 stringify i [] = Valid"
| "verifyFrom sha256 stringify i (b # bs) =
     (if calculateHash sha256 stringify b \<noteq> hash b then TamperedAt i
      else verifyFrom sha256 stringify (Suc i) bs)"

definition verifyChain ::
  "(string \<Rightarrow> string) \<Rightarrow> (block_data \<Rightarrow> string) \<Rightarrow> block list \<Rightarrow> verdict" where
  "verifyChain sha256 stringify es = verifyFrom sha256 stringify 0 es"

text \<open>Overwriting the points of a stored entry.\<close>

definition setPoints :: "int \<Rightarrow> block \<Rightarrow> block" where
  "setPoints p b = b\<lparr>data := (data b)\<lparr>points := p\<rparr>\<rparr>"

text \<open>Stand-ins for the two library functions, for running the definitions on concrete
  inputs: a serialisation that writes the action and the points, and a digest that
  starts with two zeros once the nonce, the last number of its input, ends in 3.\<close>

definition toy_stringify :: "block_data \<Rightarrow> string" where
  "toy_stringify d = bd_action d @ '':'' @ decimal (nat (points d)) @ '';''"

definition toy_sha256 :: "string \<Rightarrow> string" where
  "toy_sha256 s = (if s \<noteq> [] \<and> last s = CHR ''3'' then ''00'' @ s else ''ff'' @ s)"

text \<open>A serialisation that writes the points with their sign, in unary.\<close>

definition unary_stringify :: "block_data \<Rightarrow> string" where
  "unary_stringify d =
     bd_action d @ '':'' @ (if points d < 0 then ''-'' else [])
       @ replicate (nat \<bar>points d\<bar>) (CHR ''1'') @ '';''"

definition request1 :: record_request where
  "request1 = \<lparr>req_action = ''add_site'', req_points = 10, req_iso = ''t1'',
               req_digest = ''d1'', req_now = 1000\<rparr>"

definition request2 :: record_request where
  "request2 = \<lparr>req_action = ''panic_mode'', req_points = 25, req_iso = ''t2'',
               req_digest = ''d2'', req_now = 2000\<rparr>"

text \<open>The proof-of-work postcondition of an entry: the stored hash is the digest of the
  entry's previous hash, timestamp, data and nonce, and starts with \<open>difficulty\<close>
  zeros.\<close>

definition sealed ::
  "(string \<Rightarrow> string) \<Rightarrow> (block_data \<Rightarrow> string) \<Rightarrow> nat \<Rightarrow> block \<Rightarrow> bool" where
  "sealed sha256 stringify difficulty b \<longleftrightarrow>
     hash b = sha256 (previousHash b @ decimal (timestamp b) @ stringify (data b)
                       @ decimal (nonce b))
     \<and> take difficulty (hash b) = replicate difficulty (CHR ''0'')"

text \<open>The row that recording \<open>request1\<close> for user \<open>u1\<close> produces with the stand-in
  digest.\<close>

definition block1 :: block where
  "block1 = \<lparr>timestamp = 1000,
             data = \<lparr>bd_userId = ''u1'', bd_action = ''add_site'', points = 10,
                     bd_timestamp = ''t1'', bd_data = ''d1'', bd_previousHash = ''0''\<rparr>,
             previousHash = ''0'', nonce = 3, hash = ''0001000add_site:10;3''\<rparr>"

definition row1 :: block_row where
  "row1 = \<lparr>user_id = ''u1'', block_hash = ''0001000add_site:10;3'', previous_hash = ''0'',
           action_type = ''add_site'', points_awarded = 10, row_block = block1,
           created_at = 1000\<rparr>"

text \<open>The same two requests recorded with the unary serialisation.\<close>

definition unary_block1 :: block where
  "unary_block1 = \<lparr>timestamp = 1000,
             data = \<lparr>bd_userId = ''u1'', bd_action = ''add_site'', points = 10,
                     bd_timestamp = ''t1'', bd_data = ''d1'', bd_previousHash = ''0''\<rparr>,
             previousHash = ''0'', nonce = 3, hash = ''0001000add_site:1111111111;3''\<rparr>"

definition unary_row1 :: block_row where
  "unary_row1 = \<lparr>user_id = ''u1'', block_hash = ''0001000add_site:1111111111;3'',
           previous_hash = ''0'', action_type = ''add_site'', points_awarded = 10,
           row_block = unary_block1, created_at = 1000\<rparr>"

definition unary_block2 :: block where
  "unary_block2 = \<lparr>timestamp = 2000,
             data = \<lparr>bd_userId = ''u1'', bd_action = ''panic_mode'', points = 25,
                     bd_timestamp = ''t2'', bd_data = ''d2'',
                     bd_previousHash = ''0001000add_site:1111111111;3''\<rparr>,
             previousHash = ''0001000add_site:1111111111;3'', nonce = 3,
             hash =
               ''000001000add_site:1111111111;32000panic_mode:1111111111111111111111111;3''\<rparr>"

definition unary_row2 :: block_row where
  "unary_row2 = \<lparr>user_id = ''u1'',
           block_hash =
             ''000001000add_site:1111111111;32000panic_mode:1111111111111111111111111;3'',
           previous_hash = ''0001000add_site:1111111111;3'', action_type = ''panic_mode'',
           points_awarded = 25, row_block = unary_block2, created_at = 2000\<rparr>"

text \<open>Stand-ins for the browser's URL parser: one that rejects every string, and one that
  knows a single address.\<close>

definition no_host :: "string \<Rightarrow> string option" where
  "no_host u = None"

definition one_host :: "string \<Rightarrow> string option" where
  "one_host u =
     (if u = ''https://www.notexample.com/a'' then Some ''www.notexample.com'' else None)"

text \<open>A session whose snapshot holds the empty string, which \<open>addSite\<close> stores when the
  input is \<open>http://\<close>.\<close>

definition empty_site_session :: session where
  "empty_site_session = \<lparr>startTime = 0, endTime = 86400000, duration = 1,
                          blockedSites = [[]], emergencyAttempts = Some 0,
                          lastDailyBonus = None\<rparr>"

text \<open>The data of a completion after zero days.\<close>

definition zero_days :: action_data where
  "zero_days = \<lparr>data_duration = None, data_daysCompleted = Some 0, data_action = None\<rparr>"

declare decimal.simps [simp del]

declare proofOfWork.simps [code]

section \<open>Natural completion\<close>

lemma completeSession_score:
  "stored_totalScore (completeSession now s stor) =
     Some (or0 (stored_totalScore stor) + ((now - startTime s) div 86400000) * 100)"
  by (simp add: completeSession_def Let_def)

lemma completeSession_streak:
  "stored_currentStreak (completeSession now s stor) =
     Some (or0 (stored_currentStreak stor) + (now - startTime s) div 86400000)"
  by (simp add: completeSession_def Let_def)

lemma completeSession_cleared:
  "stored_activeSession (completeSession now s stor) = None"
  by (simp add: completeSession_def Let_def)

lemma popup_completeSession_awards:
  assumes "activeSession p = Some a"
  shows "\<exists>p'. popup_completeSession now p = Inr p'
           \<and> totalScore p' = totalScore p + ((now - startTime a) div 86400000) * 100
           \<and> currentStreak p' = currentStreak p + (now - startTime a) div 86400000
           \<and> activeSession p' = None"
  using assms by (simp add: popup_completeSession_def Let_def)

text \<open>
  C6, as stated, fails: the day count is not clamped to the session's duration. A one-day
  session that the alarm completes three days after its start is credited three days:
  300 points and three days of streak.
\<close>

theorem completeSession_not_clamped:
  "stored_activeSession (storage_of day_session) = Some day_session
   \<and> duration day_session = 1
   \<and> (259200000 - startTime day_session) div 86400000 > duration day_session
   \<and> updateSession 259200000 (storage_of day_session)
       = completeSession 259200000 day_session (storage_of day_session)
   \<and> stored_currentStreak (updateSession 259200000 (storage_of day_session)) = Some (4 + 3)
   \<and> stored_totalScore (updateSession 259200000 (storage_of day_session)) = Some (300 + 300)"
  by (simp add: updateSession_def completeSession_def storage_of_def day_session_def
      or0_def Let_def)

text \<open>
  C6, amended: \<open>completeSession\<close> computes
  \<open>daysCompleted = floor((now - startTime) / 86400000 ms)\<close> with no clamp to the duration,
  adds exactly \<open>daysCompleted * 100\<close> to the total score, adds \<open>daysCompleted\<close> to the
  current streak and clears the active session; completed at \<open>startTime\<close> it adds nothing
  to either.
\<close>

theorem completeSession_awards:
  "stored_totalScore (completeSession now s stor)
     = Some (or0 (stored_totalScore stor) + ((now - startTime s) div 86400000) * 100)
   \<and> stored_currentStreak (completeSession now s stor)
     = Some (or0 (stored_currentStreak stor) + (now - startTime s) div 86400000)
   \<and> stored_activeSession (completeSession now s stor) = None
   \<and> stored_totalScore (completeSession (startTime s) s stor)
     = Some (or0 (stored_totalScore stor))
   \<and> stored_currentStreak (completeSession (startTime s) s stor)
     = Some (or0 (stored_currentStreak stor))"
  by (simp add: completeSession_score completeSession_streak completeSession_cleared)

theorem completeSession_awards_witness:
  "stored_totalScore (completeSession 200000000 week_session (storage_of week_session))
     = Some 500
   \<and> stored_currentStreak (completeSession 200000000 week_session (storage_of week_session))
     = Some 6"
  using completeSession_awards [of 200000000 week_session "storage_of week_session"]
  by (simp add: week_session_def storage_of_def or0_def)

section \<open>The daily bonus\<close>

lemma hours_days: "((x::int) div (60 * 60 * 1000)) div 24 = x div 86400000"
  by (simp add: zdiv_zmult2_eq [symmetric])

lemma updateSession_award:
  assumes "stored_activeSession st = Some a" and "now < endTime a"
    and "10 dvd or0 (lastDailyBonus a)"
  shows "score (updateSession now st) - score st =
           (if daysElapsed now a > lastDailyBonusDay a
            then 10 * (daysElapsed now a - lastDailyBonusDay a) else 0)"
proof -
  from assms(3) obtain l where l: "or0 (lastDailyBonus a) = 10 * l" by (auto simp: dvd_def)
  have d: "((now - startTime a) div (60 * 60 * 1000)) div 24 = daysElapsed now a"
    by (simp add: daysElapsed_def hours_days)
  show ?thesis
    using assms(1,2) l d
    by (simp add: updateSession_def Let_def score_def lastDailyBonusDay_def or0_def)
qed

text \<open>The stored bonus stays a multiple of ten, and the day index it stands for moves to
  the elapsed day.\<close>

lemma updateSession_day:
  assumes "stored_activeSession st = Some a" and "now < endTime a"
    and "10 dvd or0 (lastDailyBonus a)"
  shows "\<exists>a'. stored_activeSession (updateSession now st) = Some a'
            \<and> lastDailyBonusDay a' = max (lastDailyBonusDay a) (daysElapsed now a)
            \<and> 10 dvd or0 (lastDailyBonus a')
            \<and> startTime a' = startTime a \<and> endTime a' = endTime a"
proof -
  from assms(3) obtain l where l: "or0 (lastDailyBonus a) = 10 * l" by (auto simp: dvd_def)
  have d: "((now - startTime a) div (60 * 60 * 1000)) div 24 = daysElapsed now a"
    by (simp add: daysElapsed_def hours_days)
  show ?thesis
    using assms(1,2) l d
    by (auto simp add: updateSession_def Let_def score_def lastDailyBonusDay_def or0_def)
qed

text \<open>A tick at a day that is already granted leaves the storage as it is.\<close>

lemma updateSession_granted:
  assumes "stored_activeSession st = Some a" and "t < endTime a"
    and "10 dvd or0 (lastDailyBonus a)"
    and "daysElapsed t a \<le> lastDailyBonusDay a"
  shows "updateSession t st = st"
proof -
  from assms(3) obtain l where l: "or0 (lastDailyBonus a) = 10 * l" by (auto simp: dvd_def)
  have d: "((t - startTime a) div (60 * 60 * 1000)) div 24 = daysElapsed t a"
    by (simp add: daysElapsed_def hours_days)
  show ?thesis
    using assms(1,2,4) l d
    by (simp add: updateSession_def Let_def lastDailyBonusDay_def)
qed

lemma ticks_granted:
  assumes "stored_activeSession st = Some a"
    and "10 dvd or0 (lastDailyBonus a)"
    and "list_all (\<lambda>t. t < endTime a \<and> daysElapsed t a \<le> lastDailyBonusDay a) ts"
  shows "ticks ts st = st"
  using assms(3)
proof (induction ts)
  case Nil
  then show ?case by simp
next
  case (Cons t ts)
  then have "t < endTime a" "daysElapsed t a \<le> lastDailyBonusDay a" by simp_all
  from updateSession_granted [OF assms(1) this(1) assms(2) this(2)] Cons show ?case
    by simp
qed

text \<open>At or after the end time the tick completes the session.\<close>

lemma updateSession_completes:
  assumes "stored_activeSession st = Some a" and "now \<ge> endTime a"
  shows "updateSession now st = completeSession now a st"
  using assms by (simp add: updateSession_def)

text \<open>
  C3, as stated, fails for a tick at or after the session's end time, which completes
  the session instead of granting the daily bonus: an active one-day session ticked at its
  end time has one day elapsed and no bonus granted yet, and is awarded 100 points, not
  10.
\<close>

theorem tick_at_end_time:
  "stored_activeSession (storage_of day_session) = Some day_session
   \<and> endTime day_session = 86400000
   \<and> daysElapsed 86400000 day_session = 1
   \<and> lastDailyBonusDay day_session = 0
   \<and> score (updateSession 86400000 (storage_of day_session)) - score (storage_of day_session)
       = 100
   \<and> score (updateSession 86400000 (storage_of day_session)) - score (storage_of day_session)
       \<noteq> 10 * (daysElapsed 86400000 day_session - lastDailyBonusDay day_session)"
  by (simp add: updateSession_def completeSession_def storage_of_def day_session_def
      daysElapsed_def lastDailyBonusDay_def score_def or0_def Let_def)

text \<open>
  C3, amended: the daily-bonus tick is idempotent within an elapsed-day window: for every
  active session and every tick before the session's end time, a tick at
  \<open>daysElapsed = floor((now - startTime) / 86400 s)\<close> awards
  \<open>10 * (daysElapsed - lastDailyBonusDay)\<close> points when
  \<open>daysElapsed > lastDailyBonusDay\<close> and 0 points otherwise, and any further ticks at
  the same elapsed-day value, at whatever clock values, award nothing and leave the
  storage as it is; in particular with two days elapsed and no bonus granted before,
  five consecutive ticks award exactly 20 points in total. The stored \<open>lastDailyBonus\<close>
  is ten times the day index, a multiple of ten in every state that \<open>updateSession\<close>
  writes.
\<close>

theorem daily_bonus_tick:
  assumes "stored_activeSession st = Some a" and "now < endTime a"
    and "10 dvd or0 (lastDailyBonus a)"
    and "list_all (\<lambda>t. t < endTime a \<and> daysElapsed t a = daysElapsed now a) later"
  shows "score (updateSession now st) - score st =
           (if daysElapsed now a > lastDailyBonusDay a
            then 10 * (daysElapsed now a - lastDailyBonusDay a) else 0)
         \<and> ticks later (updateSession now st) = updateSession now st
         \<and> score (ticks (now # later) st) - score st =
           (if daysElapsed now a > lastDailyBonusDay a
            then 10 * (daysElapsed now a - lastDailyBonusDay a) else 0)
         \<and> (daysElapsed now a = 2 \<and> lastDailyBonusDay a = 0 \<and> length later = 4
              \<longrightarrow> score (ticks (now # later) st) = score st + 20)"
proof -
  from updateSession_day [OF assms(1-3)] obtain a' where
    a': "stored_activeSession (updateSession now st) = Some a'"
    and day: "lastDailyBonusDay a' = max (lastDailyBonusDay a) (daysElapsed now a)"
    and dvd: "10 dvd or0 (lastDailyBonus a')"
    and same: "startTime a' = startTime a" "endTime a' = endTime a"
    by blast
  have el: "daysElapsed t a' = daysElapsed t a" for t
    by (simp add: daysElapsed_def same)
  from assms(4) day
  have "list_all (\<lambda>t. t < endTime a' \<and> daysElapsed t a' \<le> lastDailyBonusDay a') later"
    by (induction later) (simp_all add: el same)
  from ticks_granted [OF a' dvd this]
  have rest: "ticks later (updateSession now st) = updateSession now st" .
  from updateSession_award [OF assms(1-3)] rest show ?thesis
    by auto
qed

theorem daily_bonus_tick_witness:
  "stored_activeSession (storage_of week_session) = Some week_session
   \<and> 190800000 < endTime week_session
   \<and> 10 dvd or0 (lastDailyBonus week_session)
   \<and> list_all (\<lambda>t. t < endTime week_session
                  \<and> daysElapsed t week_session = daysElapsed 190800000 week_session)
        [190800001, 200000000, 230000000, 259199999]
   \<and> daysElapsed 190800000 week_session = 2
   \<and> lastDailyBonusDay week_session = 0
   \<and> score (storage_of week_session) = 300
   \<and> score (updateSession 190800000 (storage_of week_session)) = 320
   \<and> score (ticks [190800000, 190800001, 200000000, 230000000, 259199999]
        (storage_of week_session)) = 320"
proof -
  have h1: "stored_activeSession (storage_of week_session) = Some week_session"
    by (simp add: storage_of_def)
  have h2: "190800000 < endTime week_session" by (simp add: week_session_def)
  have h3: "10 dvd or0 (lastDailyBonus week_session)"
    by (simp add: week_session_def or0_def)
  have h4: "list_all (\<lambda>t. t < endTime week_session
                  \<and> daysElapsed t week_session = daysElapsed 190800000 week_session)
        [190800001, 200000000, 230000000, 259199999]"
    by (simp add: daysElapsed_def week_session_def)
  have d: "daysElapsed 190800000 week_session = 2"
    by (simp add: daysElapsed_def week_session_def)
  have l: "lastDailyBonusDay week_session = 0"
    by (simp add: lastDailyBonusDay_def week_session_def or0_def)
  have s: "score (storage_of week_session) = 300"
    by (simp add: score_def storage_of_def or0_def)
  from daily_bonus_tick [OF h1 h2 h3 h4] d l s
  have "score (updateSession 190800000 (storage_of week_session)) = 320"
    and "score (ticks [190800000, 190800001, 200000000, 230000000, 259199999]
        (storage_of week_session)) = 320"
    by simp_all
  with h1 h2 h3 h4 d l s show ?thesis by simp
qed

section \<open>Point calculation\<close>

lemma floor_tenths: "\<lfloor>of_int b * (of_int t / 10 :: rat)\<rfloor> = (b * t) div 10"
proof -
  have "of_int b * (of_int t / 10 :: rat) = of_int (b * t) / of_int 10" by simp
  then show ?thesis by (simp only: floor_divide_of_int_eq)
qed

lemma multiplier_tenths:
  "getDiminishingReturnsMultiplier resp
     = of_int (case resp of None \<Rightarrow> 10 | Some c \<Rightarrow> tenths c) / 10"
  by (simp add: getDiminishingReturnsMultiplier_def tenths_def split: option.splits)

lemma calculateSecurePoints_int:
  "calculateSecurePoints action d resp
     = map_option (\<lambda>b. (b * (case resp of None \<Rightarrow> 10 | Some c \<Rightarrow> tenths c)) div 10)
         (basePoints action d)"
proof (cases "basePoints action d")
  case None
  then show ?thesis by (simp add: calculateSecurePoints_def)
next
  case (Some b)
  have "\<lfloor>of_int b * getDiminishingReturnsMultiplier resp\<rfloor>
          = (b * (case resp of None \<Rightarrow> 10 | Some c \<Rightarrow> tenths c)) div 10"
    unfolding multiplier_tenths by (rule floor_tenths)
  with Some show ?thesis by (simp add: calculateSecurePoints_def)
qed

lemma basePoints_table:
  "basePoints ''add_site'' d = Some 10"
  "basePoints ''start_session'' d = Some (or1 (data_duration d) * 50)"
  "basePoints ''complete_session'' d = Some (or1 (data_daysCompleted d) * 100)"
  "basePoints ''daily_bonus'' d = Some 10"
  "basePoints ''emergency_resist'' d = Some 25"
  "basePoints ''panic_mode'' d = Some 25"
  by (simp_all add: basePoints_def pointRules_def)

text \<open>
  What holds of \<open>calculateSecurePoints\<close>: for the actions of the table the points are
  \<open>floor(base * multiplier)\<close>, in integers \<open>(base * tenths) div 10\<close>, with the bases
  \<open>add_site = 10\<close>, \<open>daily_bonus = 10\<close>, \<open>panic_mode = 25\<close>, \<open>emergency_resist = 25\<close>, and
  \<open>start_session = durationDays * 50\<close>, \<open>complete_session = daysCompleted * 100\<close> where
  these numbers are given and not 0; the multiplier depends only on the occurrence count:
  1.0 below 10, 0.8 below 50, 0.6 below 100, 0.4 from there on. The 9th \<open>add_site\<close>
  occurrence yields 10 points, the 11th yields 8, the 51st yields 6 and the 101st
  yields 4, whether the stored count includes the occurrence itself or not. For a name
  inherited from \<open>Object.prototype\<close> the result is not a number.
\<close>

theorem calculateSecurePoints_table:
  "calculateSecurePoints action d resp
     = map_option (\<lambda>b. \<lfloor>of_int b * getDiminishingReturnsMultiplier resp\<rfloor>)
         (basePoints action d)
   \<and> calculateSecurePoints action d resp
     = map_option (\<lambda>b. (b * (case resp of None \<Rightarrow> 10 | Some c \<Rightarrow> tenths c)) div 10)
         (basePoints action d)
   \<and> basePoints ''add_site'' d = Some 10
   \<and> (data_duration d = Some n \<and> n \<noteq> 0 \<longrightarrow> basePoints ''start_session'' d = Some (n * 50))
   \<and> (data_daysCompleted d = Some m \<and> m \<noteq> 0 \<longrightarrow>
        basePoints ''complete_session'' d = Some (m * 100))
   \<and> basePoints ''daily_bonus'' d = Some 10
   \<and> basePoints ''panic_mode'' d = Some 25
   \<and> basePoints ''emergency_resist'' d = Some 25
   \<and> getDiminishingReturnsMultiplier (Some c)
     = (if c < 10 then 1 else if c < 50 then 0.8 else if c < 100 then 0.6 else 0.4)
   \<and> getDiminishingReturnsMultiplier None = 1
   \<and> calculateSecurePoints ''add_site'' d (Some (9 - 1)) = Some 10
   \<and> calculateSecurePoints ''add_site'' d (Some 9) = Some 10
   \<and> calculateSecurePoints ''add_site'' d (Some (11 - 1)) = Some 8
   \<and> calculateSecurePoints ''add_site'' d (Some 11) = Some 8
   \<and> calculateSecurePoints ''add_site'' d (Some (51 - 1)) = Some 6
   \<and> calculateSecurePoints ''add_site'' d (Some 51) = Some 6
   \<and> calculateSecurePoints ''add_site'' d (Some (101 - 1)) = Some 4
   \<and> calculateSecurePoints ''add_site'' d (Some 101) = Some 4
   \<and> calculateSecurePoints ''constructor'' d resp = None"
proof -
  have m: "getDiminishingReturnsMultiplier (Some c)
     = (if c < 10 then 1 else if c < 50 then 0.8 else if c < 100 then 0.6 else 0.4)"
    by (simp add: getDiminishingReturnsMultiplier_def)
  have n: "getDiminishingReturnsMultiplier None = 1"
    by (simp add: getDiminishingReturnsMultiplier_def)
  have e: "calculateSecurePoints ''add_site'' d (Some (9 - 1)) = Some 10"
    "calculateSecurePoints ''add_site'' d (Some 9) = Some 10"
    "calculateSecurePoints ''add_site'' d (Some (11 - 1)) = Some 8"
    "calculateSecurePoints ''add_site'' d (Some 11) = Some 8"
    "calculateSecurePoints ''add_site'' d (Some (51 - 1)) = Some 6"
    "calculateSecurePoints ''add_site'' d (Some 51) = Some 6"
    "calculateSecurePoints ''add_site'' d (Some (101 - 1)) = Some 4"
    "calculateSecurePoints ''add_site'' d (Some 101) = Some 4"
    by (simp_all add: calculateSecurePoints_int basePoints_table tenths_def)
  have b: "data_duration d = Some n \<and> n \<noteq> 0 \<longrightarrow>
             basePoints ''start_session'' d = Some (n * 50)"
    "data_daysCompleted d = Some m \<and> m \<noteq> 0 \<longrightarrow>
             basePoints ''complete_session'' d = Some (m * 100)"
    by (simp_all add: basePoints_table or1_def)
  have i: "calculateSecurePoints ''constructor'' d resp = None"
    by (simp add: calculateSecurePoints_def basePoints_def pointRules_def
        object_prototype_names_def)
  have f: "calculateSecurePoints action d resp
     = map_option (\<lambda>b. \<lfloor>of_int b * getDiminishingReturnsMultiplier resp\<rfloor>)
         (basePoints action d)"
    by (simp add: calculateSecurePoints_def split: option.splits)
  from m n e b i f basePoints_table [of d] calculateSecurePoints_int [of action d resp]
  show ?thesis by (intro conjI) assumption+
qed

theorem calculateSecurePoints_table_witness:
  "calculateSecurePoints ''start_session''
     \<lparr>data_duration = Some 7, data_daysCompleted = None, data_action = None\<rparr> (Some 12)
     = Some 280
   \<and> calculateSecurePoints ''complete_session''
     \<lparr>data_duration = None, data_daysCompleted = Some 3, data_action = None\<rparr> (Some 60)
     = Some 180"
  using calculateSecurePoints_table
    [where action = "''start_session''"
       and d = "\<lparr>data_duration = Some 7, data_daysCompleted = None, data_action = None\<rparr>"
       and resp = "Some 12" and n = 7]
    calculateSecurePoints_table
    [where action = "''complete_session''"
       and d = "\<lparr>data_duration = None, data_daysCompleted = Some 3, data_action = None\<rparr>"
       and resp = "Some 60" and m = 3]
  by (simp add: tenths_def)

text \<open>
  C4 on the code: the base of \<open>complete_session\<close> is not \<open>daysCompleted * 100\<close> when
  \<open>daysCompleted\<close> is 0. \<open>(data.daysCompleted || 1) * 100\<close> takes the number 0 for a
  missing one, so a completion after zero days is awarded 100 points where
  \<open>floor(0 * 100 * 1.0)\<close> is 0; \<open>completeSession\<close> of the background script, which
  multiplies the day count itself, gives no bonus there. The data that
  \<open>completeSecureSession\<close> sends has no \<open>daysCompleted\<close> at all, and gets the same 100
  points.
\<close>

theorem complete_session_zero_days:
  "data_daysCompleted zero_days = Some 0
   \<and> calculateSecurePoints ''complete_session'' zero_days (Some 0) = Some 100
   \<and> calculateSecurePoints ''complete_session'' zero_days (Some 0)
       \<noteq> Some \<lfloor>of_int (0 * 100) * getDiminishingReturnsMultiplier (Some 0)\<rfloor>
   \<and> calculateSecurePoints ''complete_session'' no_data (Some 0) = Some 100
   \<and> stored_totalScore (completeSession 0 day_session (storage_of day_session))
       = stored_totalScore (storage_of day_session)"
  by (simp add: calculateSecurePoints_int basePoints_table or1_def tenths_def zero_days_def
      no_data_def completeSession_def storage_of_def day_session_def or0_def Let_def)

section \<open>Rate limiting\<close>

text \<open>For an action that the table lists, the check fails exactly when the attempts inside
  the trailing window have reached the maximum, and records the time otherwise.\<close>

lemma checkRateLimit_listed:
  assumes "map_of limits action = Some (mx, window)"
  shows "checkRateLimit now uid action rl =
           (if mx \<le> length (filter (\<lambda>time. now - time < window)
                         (case rl (action @ ''_'' @ uid) of None \<Rightarrow> [] | Some ts \<Rightarrow> ts))
            then Inl (RateLimitExceeded action)
            else Inr (rl(action @ ''_'' @ uid \<mapsto>
                        filter (\<lambda>time. now - time < window)
                          (case rl (action @ ''_'' @ uid) of None \<Rightarrow> [] | Some ts \<Rightarrow> ts)
                        @ [now])))"
  using assms by (simp add: checkRateLimit_def Let_def)

text \<open>
  C5 on the code: the window of three per day is filed under the key \<open>session_start\<close>,
  while the action that starts a session is \<open>start_session\<close> everywhere else
  (\<open>pointRules\<close>, \<open>validateSession\<close>, the popup's call). \<open>limits[action]\<close> is undefined for
  it, so four \<open>start_session\<close> calls within four seconds all pass and nothing is
  recorded. Under the key of the table the fourth call fails, and so does the sixth
  \<open>add_site\<close> within an hour.
\<close>

theorem start_session_not_limited:
  "checkRateLimits ''u1'' ''start_session'' [0, 1000, 2000, 3000] Map.empty = Inr Map.empty
   \<and> map_of limits ''start_session'' = None
   \<and> map_of limits ''session_start'' = Some (3, 86400000)
   \<and> checkRateLimits ''u1'' ''session_start'' [0, 1000, 2000, 3000] Map.empty
       = Inl (RateLimitExceeded ''session_start'')
   \<and> checkRateLimits ''u1'' ''add_site'' [0, 1000, 2000, 3000, 4000, 5000] Map.empty
       = Inl (RateLimitExceeded ''add_site'')"
  by (simp add: checkRateLimit_def limits_def object_prototype_names_def Let_def)

section \<open>Emergency disable\<close>

text \<open>The first two attempts of a session show the intervention and change neither score
  nor streak.\<close>

lemma attempt_intervention:
  assumes "activeSession p = Some a" and "or0 (emergencyAttempts a) < 2"
  shows "\<exists>p'. attemptEmergencyDisable p = Inr (Intervention, p')
           \<and> totalScore p' = totalScore p \<and> currentStreak p' = currentStreak p"
  using assms by (simp add: attemptEmergencyDisable_def Let_def)

text \<open>The confirmation resets the streak and takes 500 points, stopping at 0.\<close>

lemma performEmergencyDisable_penalty:
  assumes "activeSession p = Some a"
  shows "\<exists>p' l. performEmergencyDisable now r p = Inr (p', l)
           \<and> currentStreak p' = 0 \<and> totalScore p' = max 0 (totalScore p - 500)
           \<and> activeSession p' = None \<and> reason l = r"
  using assms by (simp add: performEmergencyDisable_def)

text \<open>
  C2 on the code: the confirmation of the popup does not check the reason. The third
  attempt opens the disable form; confirmed with an empty reason,
  \<open>performEmergencyDisable\<close> goes through: the user who held 300 points ends with 0, the
  streak is reset, the session is gone and the log holds the empty reason. (The confirm
  handler of \<open>SecureNoCornPopup\<close> returns on an empty reason instead.)
\<close>

theorem empty_reason_accepted:
  "attemptEmergencyDisable (popup_at 2) = Inr (EmergencyForm, popup_at 3)
   \<and> totalScore (popup_at 3) = 300 \<and> currentStreak (popup_at 3) = 5
   \<and> performEmergencyDisable 1000 [] (popup_at 3)
     = Inr ((popup_at 3)\<lparr>currentStreak := 0, totalScore := 0, activeSession := None\<rparr>,
            \<lparr>log_timestamp = 1000, reason = [], sessionDuration = 1000, penalty = 500\<rparr>)"
  by (simp add: attemptEmergencyDisable_def performEmergencyDisable_def popup_at_def
      popup300_def week_session_def or0_def Let_def)

lemma attemptEmergencyDisable_count:
  assumes "activeSession p = Some a"
  shows "\<exists>out p'. attemptEmergencyDisable p = Inr (out, p')
           \<and> activeSession p'
               = Some (a\<lparr>emergencyAttempts := Some (or0 (emergencyAttempts a) + 1)\<rparr>)
           \<and> out = (if or0 (emergencyAttempts a) + 1 \<ge> 3 then EmergencyForm
                    else Intervention)
           \<and> totalScore p' = totalScore p \<and> currentStreak p' = currentStreak p"
  using assms by (simp add: attemptEmergencyDisable_def Let_def)

lemma attempt_times_count:
  assumes "activeSession p = Some a"
  shows "\<exists>p' a'. attempt_times n p = Inr p' \<and> activeSession p' = Some a'
           \<and> or0 (emergencyAttempts a') = or0 (emergencyAttempts a) + int n
           \<and> totalScore p' = totalScore p \<and> currentStreak p' = currentStreak p"
  using assms
proof (induction n arbitrary: p a)
  case 0
  then show ?case by simp
next
  case (Suc n)
  let ?a1 = "a\<lparr>emergencyAttempts := Some (or0 (emergencyAttempts a) + 1)\<rparr>"
  from attemptEmergencyDisable_count [OF Suc.prems]
  obtain out p1 where s: "attemptEmergencyDisable p = Inr (out, p1)"
    and a1: "activeSession p1 = Some ?a1"
    and k: "totalScore p1 = totalScore p" "currentStreak p1 = currentStreak p"
    by blast
  from Suc.IH [OF a1] obtain p' a' where
    "attempt_times n p1 = Inr p'" "activeSession p' = Some a'"
    "or0 (emergencyAttempts a') = or0 (emergencyAttempts ?a1) + int n"
    "totalScore p' = totalScore p1" "currentStreak p' = currentStreak p1"
    by blast
  then show ?case using s k by (simp add: or0_def)
qed

text \<open>
  C9, as stated, fails: nothing caps the counter. Four attempts on a fresh session,
  the form dismissed after the third, leave \<open>emergencyAttempts = 4\<close>.
\<close>

theorem attempts_exceed_three:
  "popup_at 0 = popup300
   \<and> attempt_times 4 popup300 = Inr (popup_at 4)
   \<and> activeSession (popup_at 4) = Some (week_session\<lparr>emergencyAttempts := Some 4\<rparr>)
   \<and> \<not> or0 (emergencyAttempts (week_session\<lparr>emergencyAttempts := Some 4\<rparr>)) \<le> 3"
  by (simp add: numeral_eq_Suc attemptEmergencyDisable_def popup_at_def popup300_def
      week_session_def or0_def Let_def)

text \<open>
  C9, amended: \<open>emergencyAttempts\<close> counts the invocations of \<open>attemptEmergencyDisable\<close>
  and is not capped: \<open>n\<close> invocations on an active session add exactly \<open>n\<close> to it (so it
  stays a non-negative integer, and from a fresh session it is \<open>n\<close>) and change neither
  score nor streak; an attempt shows the disable form when the new count is at least 3
  and the intervention below that. \<open>validateEmergencyAttempt\<close> only compares the stored
  count with 3.
\<close>

theorem attempts_counted:
  assumes "activeSession p = Some a"
  shows "(\<exists>p' a'. attempt_times n p = Inr p' \<and> activeSession p' = Some a'
            \<and> or0 (emergencyAttempts a') = or0 (emergencyAttempts a) + int n
            \<and> totalScore p' = totalScore p \<and> currentStreak p' = currentStreak p)
         \<and> (\<exists>out p'. attemptEmergencyDisable p = Inr (out, p')
            \<and> out = (if or0 (emergencyAttempts a) + 1 \<ge> 3 then EmergencyForm
                     else Intervention))
         \<and> validateEmergencyAttempt (Inr m)
             = (if or0 m \<ge> 3 then Inl MaxEmergencyAttempts else Inr True)"
proof -
  from attemptEmergencyDisable_count [OF assms]
  have "\<exists>out p'. attemptEmergencyDisable p = Inr (out, p')
            \<and> out = (if or0 (emergencyAttempts a) + 1 \<ge> 3 then EmergencyForm
                     else Intervention)"
    by blast
  with attempt_times_count [OF assms, of n] show ?thesis
    by (simp add: validateEmergencyAttempt_def)
qed

theorem attempts_counted_witness:
  "activeSession popup300 = Some week_session
   \<and> or0 (emergencyAttempts week_session) = 0
   \<and> (\<exists>p' a'. attempt_times 4 popup300 = Inr p' \<and> activeSession p' = Some a'
         \<and> or0 (emergencyAttempts a') = 4 \<and> totalScore p' = 300 \<and> currentStreak p' = 5)"
proof -
  have h: "activeSession popup300 = Some week_session" by (simp add: popup300_def)
  have z: "or0 (emergencyAttempts week_session) = 0" by (simp add: week_session_def or0_def)
  have t: "totalScore popup300 = 300" "currentStreak popup300 = 5"
    by (simp_all add: popup300_def)
  show ?thesis
    using attempts_counted [OF h, where n = 4 and m = None] h z t by simp
qed

section \<open>Starting a session\<close>

text \<open>\<open>validateSession\<close> rejects a start during an active session only when the data
  carries \<open>action = 'start_session'\<close>; the data that \<open>startSecureBlockSession\<close> sends
  has a duration, the sites and a timestamp, and no \<open>action\<close>.\<close>

lemma validateSession_active:
  "validateSession d (Inr rows) = Inl SessionAlreadyActive
     \<longleftrightarrow> \<not> (case data_duration d of None \<Rightarrow> False | Some n \<Rightarrow> n < 1 \<or> n > 365)
         \<and> rows > 0 \<and> data_action d = Some ''start_session''"
  by (simp add: validateSession_def)

lemma validateSession_no_action:
  "data_action d = None \<Longrightarrow> validateSession d resp \<noteq> Inl SessionAlreadyActive"
  by (simp add: validateSession_def split: sum.splits)

text \<open>
  What \<open>startBlockSession\<close> does check: it fails with \<open>EmptySiteList\<close> whenever the site
  list is empty; with a custom duration it fails with \<open>InvalidDuration\<close> whenever the
  entered number of days is not a number or lies outside [1,365] (a preset duration is
  used as it is). Every successful call adds exactly \<open>days * 50\<close> points to the total
  score and, for a duration of at least one day, stores a session that starts now, ends
  \<open>days * 86400000\<close> ms later, snapshots the site list and has no emergency attempts (a
  preset of no days is completed by the display update at once). \<open>validateSession\<close>
  fails with the invalid-duration error whenever the duration is below 1 or above 365.
\<close>

theorem startBlockSession_outcomes:
  "(siteList p = [] \<longrightarrow> startBlockSession now choice confirmed p = Inl EmptySiteList)
   \<and> (siteList p \<noteq> [] \<longrightarrow>
        startBlockSession now (Custom None) confirmed p = Inl InvalidDuration)
   \<and> (siteList p \<noteq> [] \<and> (days < 1 \<or> days > 365) \<longrightarrow>
        startBlockSession now (Custom (Some days)) confirmed p = Inl InvalidDuration)
   \<and> (siteList p \<noteq> [] \<and> 1 \<le> days \<and> days \<le> 365 \<longrightarrow>
        (\<exists>p'. startBlockSession now (Custom (Some days)) True p = Inr p'))
   \<and> (siteList p \<noteq> [] \<longrightarrow> (\<exists>p'. startBlockSession now (Preset days) True p = Inr p'))
   \<and> (startBlockSession now choice confirmed p = Inr p' \<longrightarrow>
        confirmed \<and> siteList p \<noteq> []
        \<and> (\<exists>n. (choice = Custom (Some n) \<and> 1 \<le> n \<and> n \<le> 365 \<or> choice = Preset n)
              \<and> totalScore p' = totalScore p + n * 50
              \<and> siteList p' = siteList p \<and> currentStreak p' = currentStreak p
              \<and> (if 1 \<le> n
                  then activeSession p'
                         = Some \<lparr>startTime = now, endTime = now + n * 86400000,
                                 duration = n, blockedSites = siteList p,
                                 emergencyAttempts = Some 0, lastDailyBonus = None\<rparr>
                  else activeSession p' = None)))
   \<and> (data_duration d = Some m \<and> (m < 1 \<or> m > 365) \<longrightarrow>
        validateSession d resp = Inl InvalidSessionDuration)"
proof -
  have 1: "siteList p = [] \<longrightarrow> startBlockSession now choice confirmed p = Inl EmptySiteList"
    by (simp add: startBlockSession_def)
  have 2: "siteList p \<noteq> [] \<longrightarrow>
        startBlockSession now (Custom None) confirmed p = Inl InvalidDuration"
    by (simp add: startBlockSession_def)
  have 3: "siteList p \<noteq> [] \<and> (days < 1 \<or> days > 365) \<longrightarrow>
        startBlockSession now (Custom (Some days)) confirmed p = Inl InvalidDuration"
    by (auto simp add: startBlockSession_def)
  have 4: "siteList p \<noteq> [] \<and> 1 \<le> days \<and> days \<le> 365 \<longrightarrow>
        (\<exists>p'. startBlockSession now (Custom (Some days)) True p = Inr p')"
    by (auto simp add: startBlockSession_def Let_def)
  have 5: "siteList p \<noteq> [] \<longrightarrow> (\<exists>p'. startBlockSession now (Preset days) True p = Inr p')"
    by (simp add: startBlockSession_def Let_def)
  have 6: "startBlockSession now choice confirmed p = Inr p' \<longrightarrow>
        confirmed \<and> siteList p \<noteq> []
        \<and> (\<exists>n. (choice = Custom (Some n) \<and> 1 \<le> n \<and> n \<le> 365 \<or> choice = Preset n)
              \<and> totalScore p' = totalScore p + n * 50
              \<and> siteList p' = siteList p \<and> currentStreak p' = currentStreak p
              \<and> (if 1 \<le> n
                  then activeSession p'
                         = Some \<lparr>startTime = now, endTime = now + n * 86400000,
                                 duration = n, blockedSites = siteList p,
                                 emergencyAttempts = Some 0, lastDailyBonus = None\<rparr>
                  else activeSession p' = None))"
  proof (cases choice)
    case (Custom c)
    then show ?thesis
      by (auto simp add: startBlockSession_def updateDisplay_def popup_completeSession_def
          Let_def split: option.splits if_splits)
  next
    case (Preset n)
    then show ?thesis
      by (auto simp add: startBlockSession_def updateDisplay_def popup_completeSession_def
          Let_def split: if_splits intro!: exI [of _ n])
  qed
  have 7: "data_duration d = Some m \<and> (m < 1 \<or> m > 365) \<longrightarrow>
        validateSession d resp = Inl InvalidSessionDuration"
    by (auto simp add: validateSession_def)
  from 1 2 3 4 5 6 7 show ?thesis by blast
qed

theorem startBlockSession_outcomes_witness:
  "siteList popup300 \<noteq> []
   \<and> startBlockSession 5000 (Custom (Some 0)) True popup300 = Inl InvalidDuration
   \<and> startBlockSession 5000 (Custom (Some 366)) True popup300 = Inl InvalidDuration
   \<and> startBlockSession 5000 (Custom None) True popup300 = Inl InvalidDuration
   \<and> siteList (popup300\<lparr>siteList := []\<rparr>) = []
   \<and> startBlockSession 5000 (Preset 7) True (popup300\<lparr>siteList := []\<rparr>) = Inl EmptySiteList
   \<and> (\<exists>p'. startBlockSession 5000 (Custom (Some 7)) True popup300 = Inr p'
         \<and> totalScore p' = 650
         \<and> activeSession p'
             = Some \<lparr>startTime = 5000, endTime = 604805000, duration = 7,
                     blockedSites = [''example.com''], emergencyAttempts = Some 0,
                     lastDailyBonus = None\<rparr>)
   \<and> validateSession
        \<lparr>data_duration = Some 400, data_daysCompleted = None, data_action = None\<rparr> (Inr 0)
       = Inl InvalidSessionDuration"
proof -
  have ne: "siteList popup300 \<noteq> []" "siteList popup300 = [''example.com'']"
    "totalScore popup300 = 300"
    by (simp_all add: popup300_def)
  have e: "siteList (popup300\<lparr>siteList := []\<rparr>) = []" by simp
  note t = startBlockSession_outcomes
  from t [where p = popup300 and days = 0 and now = 5000 and confirmed = True] ne
  have a: "startBlockSession 5000 (Custom (Some 0)) True popup300 = Inl InvalidDuration"
    "startBlockSession 5000 (Custom None) True popup300 = Inl InvalidDuration"
    by simp_all
  from t [where p = popup300 and days = 366 and now = 5000 and confirmed = True] ne
  have b: "startBlockSession 5000 (Custom (Some 366)) True popup300 = Inl InvalidDuration"
    by simp
  from t [where p = "popup300\<lparr>siteList := []\<rparr>" and now = 5000 and confirmed = True
      and choice = "Preset 7"] e
  have c: "startBlockSession 5000 (Preset 7) True (popup300\<lparr>siteList := []\<rparr>)
             = Inl EmptySiteList"
    by simp
  from t [where p = popup300 and days = 7 and now = 5000 and confirmed = True
      and choice = "Custom None" and p' = popup300 and d = no_data and m = 0
      and resp = "Inr 0"] ne
  have "\<exists>p'. startBlockSession 5000 (Custom (Some 7)) True popup300 = Inr p'"
    by simp
  then obtain p' where s: "startBlockSession 5000 (Custom (Some 7)) True popup300 = Inr p'"
    by blast
  from t [where p = popup300 and now = 5000 and confirmed = True
      and choice = "Custom (Some 7)" and p' = p'] s ne
  have f: "totalScore p' = 650
         \<and> activeSession p'
             = Some \<lparr>startTime = 5000, endTime = 604805000, duration = 7,
                     blockedSites = [''example.com''], emergencyAttempts = Some 0,
                     lastDailyBonus = None\<rparr>"
    by auto
  from t [where d = "\<lparr>data_duration = Some 400, data_daysCompleted = None,
      data_action = None\<rparr>" and m = 400 and resp = "Inr 0"]
  have g: "validateSession
        \<lparr>data_duration = Some 400, data_daysCompleted = None, data_action = None\<rparr> (Inr 0)
       = Inl InvalidSessionDuration"
    by simp
  from ne e a b c s f g show ?thesis by simp
qed

text \<open>
  C1 on the code: a start while a session is active does not fail. \<open>validateSession\<close>
  throws `Cannot start new session while another is active' only when
  \<open>data.action === 'start_session'\<close>, and the data it is given never has an \<open>action\<close>
  (the action name travels as a separate argument), so with one active session in the
  table the validation of a seven-day start returns true. \<open>startBlockSession\<close> of the
  plain popup has no such check at all: on a popup that holds an active session it
  replaces the session and awards the start bonus again (300 + 7 * 50 = 650).
\<close>

theorem start_with_active_session:
  "validateSession
     \<lparr>data_duration = Some 7, data_daysCompleted = None, data_action = None\<rparr> (Inr 1)
     = Inr True
   \<and> activeSession popup300 = Some week_session
   \<and> startBlockSession 5000 (Custom (Some 7)) True popup300
     = Inr (popup300\<lparr>activeSession :=
               Some \<lparr>startTime = 5000, endTime = 604805000, duration = 7,
                     blockedSites = [''example.com''], emergencyAttempts = Some 0,
                     lastDailyBonus = None\<rparr>,
             totalScore := 650\<rparr>)"
  by (simp add: validateSession_def startBlockSession_def updateDisplay_def popup300_def
      Let_def)

section \<open>Blocking status\<close>

lemma str_includes_sublist: "str_includes d s = sublist s d"
  by (induction d) (auto simp: sublist_Cons_right)

lemma str_includes_iff: "str_includes d s \<longleftrightarrow> (\<exists>p q. d = p @ s @ q)"
  by (simp add: str_includes_sublist sublist_def)

text \<open>
  C10, as stated, fails on its last part: an unparsable url gives the hostname \<open>''\<close>,
  and \<open>''.includes('')\<close> is true, so with the empty string in the snapshot the url is
  reported blocked.
\<close>

theorem unparsable_url_blocked:
  "no_host ''not a url'' = None
   \<and> extractDomain no_host ''not a url'' = []
   \<and> stored_activeSession (storage_of empty_site_session) = Some empty_site_session
   \<and> blocked (getBlockingStatus no_host 1000 ''not a url'' (storage_of empty_site_session))"
  by (simp add: getBlockingStatus_def extractDomain_def no_host_def storage_of_def
      empty_site_session_def Let_def)

text \<open>
  C10, amended: \<open>getBlockingStatus(url)\<close> returns \<open>blocked = false\<close> for every url
  whenever no session is active, whatever the list of blocked sites holds; when a session
  is active it reports the url blocked exactly when the hostname with a leading \<open>www.\<close>
  removed contains some site of the session's snapshot as a substring (so
  \<open>notexample.com\<close> is blocked by \<open>example.com\<close>); an unparsable url yields the hostname
  \<open>''\<close> and is blocked only when the snapshot contains the empty string.
\<close>

theorem getBlockingStatus_blocked:
  "(stored_activeSession st = None \<longrightarrow> \<not> blocked (getBlockingStatus h now url st))
   \<and> (stored_activeSession st = Some a \<longrightarrow>
        blocked (getBlockingStatus h now url st)
          = (\<exists>s \<in> set (blockedSites a). \<exists>p q. extractDomain h url = p @ s @ q))
   \<and> (h url = Some host \<longrightarrow>
        extractDomain h url = (if prefix ''www.'' host then drop 4 host else host))
   \<and> (h url = None \<longrightarrow> extractDomain h url = [])
   \<and> (h url = None \<and> stored_activeSession st = Some a \<longrightarrow>
        blocked (getBlockingStatus h now url st) = ([] \<in> set (blockedSites a)))"
  by (auto simp add: getBlockingStatus_def extractDomain_def Let_def list_ex_iff
      str_includes_iff)

theorem getBlockingStatus_blocked_witness:
  "blocked (getBlockingStatus one_host 1000 ''https://www.notexample.com/a''
      (storage_of week_session))
   \<and> extractDomain one_host ''https://www.notexample.com/a'' = ''notexample.com''
   \<and> \<not> blocked (getBlockingStatus one_host 1000 ''nonsense'' (storage_of week_session))
   \<and> \<not> blocked (getBlockingStatus one_host 1000 ''https://www.notexample.com/a''
         ((storage_of week_session)\<lparr>stored_activeSession := None\<rparr>))"
proof -
  let ?u = "''https://www.notexample.com/a''"
  let ?off = "(storage_of week_session)\<lparr>stored_activeSession := None\<rparr>"
  note t = getBlockingStatus_blocked
  have a: "stored_activeSession (storage_of week_session) = Some week_session"
    by (simp add: storage_of_def)
  have n: "stored_activeSession ?off = None" by simp
  have h: "one_host ?u = Some ''www.notexample.com''" by (simp add: one_host_def)
  have u: "one_host ''nonsense'' = None" by (simp add: one_host_def)
  have s: "blockedSites week_session = [''example.com'']" by (simp add: week_session_def)
  have sub: "''notexample.com'' = ''not'' @ ''example.com'' @ []" by simp
  from t [where st = "storage_of week_session" and h = one_host and url = ?u
      and a = week_session and host = "''www.notexample.com''"] a h s
  have d: "extractDomain one_host ?u = ''notexample.com''"
    by simp
  from t [where st = "storage_of week_session" and h = one_host and url = ?u
      and a = week_session and host = "''www.notexample.com''" and now = 1000] a h s d sub
  have b1: "blocked (getBlockingStatus one_host 1000 ?u (storage_of week_session))"
    by (metis list.set_intros(1))
  from t [where st = "storage_of week_session" and h = one_host and url = "''nonsense''"
      and a = week_session and now = 1000] a u s
  have b2: "\<not> blocked (getBlockingStatus one_host 1000 ''nonsense''
      (storage_of week_session))"
    by simp
  from t [where st = ?off and h = one_host and url = ?u and now = 1000] n
  have b3: "\<not> blocked (getBlockingStatus one_host 1000 ?u ?off)"
    by simp
  show ?thesis using b1 b2 b3 d by simp
qed

section \<open>The integrity log\<close>

lemma proofOfWork_post:
  assumes "proofOfWork H S k b = Some r"
  shows "hash b = calculateHash H S b \<longrightarrow>
         sealed H S k r
         \<and> timestamp r = timestamp b \<and> data r = data b \<and> previousHash r = previousHash b"
proof (rule proofOfWork.raw_induct
    [where P = "\<lambda>H S k b r. hash b = calculateHash H S b \<longrightarrow>
         sealed H S k r
         \<and> timestamp r = timestamp b \<and> data r = data b \<and> previousHash r = previousHash b",
     OF _ assms])
  fix pow :: "(string \<Rightarrow> string) \<Rightarrow> (block_data \<Rightarrow> string) \<Rightarrow> nat \<Rightarrow> block \<Rightarrow> block option"
    and H S k b r
  assume IH: "\<And>H S k b r. pow H S k b = Some r \<Longrightarrow>
      hash b = calculateHash H S b \<longrightarrow>
         sealed H S k r
         \<and> timestamp r = timestamp b \<and> data r = data b \<and> previousHash r = previousHash b"
    and step: "(if take k (hash b) \<noteq> replicate k (CHR ''0'')
      then pow H S k
             (b\<lparr>nonce := nonce b + 1,
                hash := calculateHash H S (b\<lparr>nonce := nonce b + 1\<rparr>)\<rparr>)
      else Some b) = Some r"
  show "hash b = calculateHash H S b \<longrightarrow>
         sealed H S k r
         \<and> timestamp r = timestamp b \<and> data r = data b \<and> previousHash r = previousHash b"
  proof (cases "take k (hash b) \<noteq> replicate k (CHR ''0'')")
    case True
    let ?b' = "b\<lparr>nonce := nonce b + 1,
                hash := calculateHash H S (b\<lparr>nonce := nonce b + 1\<rparr>)\<rparr>"
    from True step have "pow H S k ?b' = Some r" by simp
    from IH [OF this] have "hash ?b' = calculateHash H S ?b' \<longrightarrow>
         sealed H S k r
         \<and> timestamp r = timestamp ?b' \<and> data r = data ?b'
         \<and> previousHash r = previousHash ?b'" .
    moreover have "hash ?b' = calculateHash H S ?b'"
      by (simp add: calculateHash_def)
    ultimately have "sealed H S k r
         \<and> timestamp r = timestamp ?b' \<and> data r = data ?b'
         \<and> previousHash r = previousHash ?b'"
      by blast
    then show ?thesis by simp
  next
    case False
    with step have "r = b" by simp
    with False show ?thesis unfolding sealed_def calculateHash_def by blast
  qed
qed

lemma createBlock_post:
  assumes "createBlock H S k now d = Some b"
  shows "sealed H S k b \<and> timestamp b = now \<and> data b = d
         \<and> previousHash b = bd_previousHash d"
proof -
  let ?b0 = "\<lparr>timestamp = now, data = d, previousHash = bd_previousHash d, nonce = 0,
               hash = []\<rparr>"
  let ?b1 = "?b0\<lparr>hash := calculateHash H S ?b0\<rparr>"
  from assms have "proofOfWork H S k ?b1 = Some b"
    by (simp add: createBlock_def Let_def)
  from proofOfWork_post [OF this]
  have "hash ?b1 = calculateHash H S ?b1 \<longrightarrow>
         sealed H S k b
         \<and> timestamp b = timestamp ?b1 \<and> data b = data ?b1
         \<and> previousHash b = previousHash ?b1" .
  moreover have "hash ?b1 = calculateHash H S ?b1"
    by (simp add: calculateHash_def)
  ultimately have "sealed H S k b
         \<and> timestamp b = timestamp ?b1 \<and> data b = data ?b1
         \<and> previousHash b = previousHash ?b1"
    by blast
  then show ?thesis by simp
qed

lemma recordToBlockchain_row:
  assumes "recordToBlockchain H S online uid rq table = Some (Inr (table', row))"
  shows "table' = table @ [row] \<and> user_id row = uid
         \<and> block_hash row = hash (row_block row)
         \<and> previous_hash row = previousHash (row_block row)
         \<and> sealed H S default_difficulty (row_block row)
         \<and> points (data (row_block row)) = req_points rq
         \<and> getLastBlockHash (Inr (select_last_block table uid))
             = Inr (previousHash (row_block row))"
proof -
  let ?resp = "if online then Inr (select_last_block table uid) else Inl ''offline''"
  from assms obtain prev where prev: "getLastBlockHash ?resp = Inr prev"
    by (cases "getLastBlockHash ?resp") (simp_all add: recordToBlockchain_def)
  then have on: "online"
    by (cases online) (simp_all add: getLastBlockHash_def)
  let ?d = "\<lparr>bd_userId = uid, bd_action = req_action rq,
             points = req_points rq, bd_timestamp = req_iso rq,
             bd_data = req_digest rq, bd_previousHash = prev\<rparr>"
  from assms prev obtain b
    where b: "createBlock H S default_difficulty (req_now rq) ?d = Some b"
    by (cases "createBlock H S default_difficulty (req_now rq) ?d")
       (simp_all add: recordToBlockchain_def Let_def)
  from assms prev b have row: "row = \<lparr>user_id = uid, block_hash = hash b,
                            previous_hash = previousHash b, action_type = req_action rq,
                            points_awarded = req_points rq, row_block = b,
                            created_at = req_now rq\<rparr>" and t: "table' = table @ [row]"
    by (auto simp add: recordToBlockchain_def Let_def)
  from createBlock_post [OF b] have "sealed H S default_difficulty b" "data b = ?d"
    "previousHash b = prev" by simp_all
  with prev on show ?thesis
    by (simp add: row t)
qed

lemma select_last_block_none:
  "filter (\<lambda>r. user_id r = uid) table = [] \<Longrightarrow> select_last_block table uid = []"
  by (simp add: select_last_block_def)

text \<open>
  C8: every entry that \<open>recordToBlockchain\<close> stores satisfies the proof-of-work
  postcondition: its stored hash (also the row's \<open>block_hash\<close>) is the digest of its
  previous hash, timestamp, data and nonce, and starts with \<open>difficulty\<close> zeros, the
  difficulty being 2; the previous hash of the first entry of a user's chain is the
  genesis constant \<open>"0"\<close>. The digest and the serialisation are parameters, and the
  statement is about the entries that are stored: the loop that searches the nonce has
  no bound.
\<close>

theorem accepted_entry_sealed:
  assumes "recordToBlockchain H S online uid rq table = Some (Inr (table', row))"
  shows "table' = table @ [row]
         \<and> block_hash row = hash (row_block row)
         \<and> hash (row_block row)
             = H (previousHash (row_block row) @ decimal (timestamp (row_block row))
                  @ S (data (row_block row)) @ decimal (nonce (row_block row)))
         \<and> take default_difficulty (hash (row_block row))
             = replicate default_difficulty (CHR ''0'')
         \<and> default_difficulty = 2
         \<and> (filter (\<lambda>r. user_id r = uid) table = [] \<longrightarrow>
              previousHash (row_block row) = ''0'' \<and> previous_hash row = ''0'')"
proof -
  note r = recordToBlockchain_row [OF assms]
  from r have s: "sealed H S default_difficulty (row_block row)" by simp
  have g: "filter (\<lambda>r. user_id r = uid) table = [] \<longrightarrow>
              previousHash (row_block row) = ''0'' \<and> previous_hash row = ''0''"
  proof
    assume "filter (\<lambda>r. user_id r = uid) table = []"
    then have "select_last_block table uid = []" by (rule select_last_block_none)
    with r show "previousHash (row_block row) = ''0'' \<and> previous_hash row = ''0''"
      by (simp add: getLastBlockHash_def)
  qed
  from r s g show ?thesis
    by (simp add: sealed_def default_difficulty_def)
qed

lemma record_request1:
  "recordToBlockchain toy_sha256 toy_stringify True ''u1'' request1 []
     = Some (Inr ([row1], row1))"
  by code_simp

theorem accepted_entry_sealed_witness:
  "recordToBlockchain toy_sha256 toy_stringify True ''u1'' request1 []
     = Some (Inr ([row1], row1))
   \<and> nonce block1 = 3
   \<and> hash block1 = toy_sha256 (''0'' @ ''1000'' @ toy_stringify (data block1) @ ''3'')
   \<and> take 2 (hash block1) = ''00''
   \<and> previousHash block1 = ''0''"
proof -
  have e: "filter (\<lambda>r. user_id r = ''u1'') [] = []" by simp
  have b: "row_block row1 = block1" by (simp add: row1_def)
  have f: "nonce block1 = 3" "timestamp block1 = 1000" by (simp_all add: block1_def)
  have d: "decimal 1000 = ''1000''" "decimal 3 = ''3''" by code_simp+
  have z: "replicate 2 (CHR ''0'') = ''00''" by (simp add: numeral_2_eq_2)
  note r = accepted_entry_sealed [OF record_request1]
  from r have h1: "hash (row_block row1)
             = toy_sha256 (previousHash (row_block row1) @ decimal (timestamp (row_block row1))
                  @ toy_stringify (data (row_block row1)) @ decimal (nonce (row_block row1)))"
    by blast
  from r have h2: "take default_difficulty (hash (row_block row1))
             = replicate default_difficulty (CHR ''0'')"
    by blast
  from r have h3: "default_difficulty = 2" by blast
  from r e have h4: "previousHash (row_block row1) = ''0''" by blast
  have c4: "previousHash block1 = ''0''" by (rule h4 [unfolded b])
  have c2: "hash block1 = toy_sha256 (''0'' @ ''1000'' @ toy_stringify (data block1) @ ''3'')"
    by (rule h1 [unfolded b f d c4])
  have c3: "take 2 (hash block1) = ''00''" by (rule h2 [unfolded h3 b z])
  show ?thesis
    using record_request1 f(1) c2 c3 c4 by (intro conjI) assumption+
qed

section \<open>Verifying the chain\<close>

lemma verifyFrom_all_ok:
  "list_all (\<lambda>b. calculateHash H S b = hash b) es \<Longrightarrow> verifyFrom H S k es = Valid"
  by (induction es arbitrary: k) simp_all

lemma verifyFrom_update:
  "list_all (\<lambda>b. calculateHash H S b = hash b) es \<Longrightarrow> i < length es \<Longrightarrow>
   verifyFrom H S k (es[i := b']) =
     (if calculateHash H S b' \<noteq> hash b' then TamperedAt (k + i) else Valid)"
proof (induction es arbitrary: i k)
  case Nil
  then show ?case by simp
next
  case (Cons e es)
  show ?case
  proof (cases i)
    case 0
    with Cons.prems show ?thesis by (simp add: verifyFrom_all_ok)
  next
    case (Suc j)
    with Cons.prems have "list_all (\<lambda>b. calculateHash H S b = hash b) es" "j < length es"
      "calculateHash H S e = hash e"
      by simp_all
    with Cons.IH [of j "Suc k"] Suc show ?thesis by simp
  qed
qed

text \<open>The index that \<open>verifyChain\<close> reports is that of the first entry whose recomputed
  hash differs from the stored one.\<close>

lemma verifyFrom_first:
  "verifyFrom H S k es = TamperedAt n \<Longrightarrow>
   k \<le> n \<and> n - k < length es
   \<and> calculateHash H S (es ! (n - k)) \<noteq> hash (es ! (n - k))
   \<and> list_all (\<lambda>b. calculateHash H S b = hash b) (take (n - k) es)"
proof (induction es arbitrary: k)
  case Nil
  then show ?case by simp
next
  case (Cons e es)
  show ?case
  proof (cases "calculateHash H S e \<noteq> hash e")
    case True
    with Cons.prems show ?thesis by simp
  next
    case False
    with Cons.prems have "verifyFrom H S (Suc k) es = TamperedAt n" by simp
    from Cons.IH [OF this] have ih: "Suc k \<le> n" "n - Suc k < length es"
      "calculateHash H S (es ! (n - Suc k)) \<noteq> hash (es ! (n - Suc k))"
      "list_all (\<lambda>b. calculateHash H S b = hash b) (take (n - Suc k) es)"
      by simp_all
    from ih(1) have nk: "n - k = Suc (n - Suc k)" by simp
    from ih False show ?thesis by (simp add: nk)
  qed
qed

lemma recordAll_inv:
  assumes "recordAll H S uid rqs table = Some (Inr table')"
    and "list_all (\<lambda>b. calculateHash H S b = hash b) (entries table uid)"
  shows "list_all (\<lambda>b. calculateHash H S b = hash b) (entries table' uid)
         \<and> length (entries table' uid) = length (entries table uid) + length rqs"
  using assms
proof (induction rqs arbitrary: table)
  case Nil
  then show ?case by simp
next
  case (Cons rq rqs)
  from Cons.prems(1) obtain t1 row where
    r: "recordToBlockchain H S True uid rq table = Some (Inr (t1, row))"
    and rest: "recordAll H S uid rqs t1 = Some (Inr table')"
    by (auto split: option.splits sum.splits)
  from recordToBlockchain_row [OF r] have t1: "t1 = table @ [row]"
    and u: "user_id row = uid"
    and s: "sealed H S default_difficulty (row_block row)" by simp_all
  from s have ok: "calculateHash H S (row_block row) = hash (row_block row)"
    by (simp add: sealed_def calculateHash_def)
  from Cons.prems(2) ok u
  have inv: "list_all (\<lambda>b. calculateHash H S b = hash b) (entries t1 uid)"
    and len: "length (entries t1 uid) = Suc (length (entries table uid))"
    by (simp_all add: entries_def t1)
  from Cons.IH [OF rest inv] len show ?case by simp
qed

text \<open>Overwriting the points of one entry of a valid chain: the entries before it are
  untouched, so the report depends on that entry alone.\<close>

lemma verifyChain_overwrite:
  assumes "recordAll H S uid rqs [] = Some (Inr table)"
  shows "verifyChain H S (entries table uid) = Valid
         \<and> length (entries table uid) = length rqs
         \<and> (i < length rqs \<longrightarrow>
              verifyChain H S ((entries table uid)[i := setPoints p (entries table uid ! i)])
                = (if calculateHash H S (setPoints p (entries table uid ! i))
                        \<noteq> hash (entries table uid ! i)
                   then TamperedAt i else Valid))
         \<and> list_all (\<lambda>b. calculateHash H S b = hash b) (entries table uid)"
proof -
  have "list_all (\<lambda>b. calculateHash H S b = hash b) (entries [] uid)"
    by (simp add: entries_def)
  from recordAll_inv [OF assms this]
  have ok: "list_all (\<lambda>b. calculateHash H S b = hash b) (entries table uid)"
    and len: "length (entries table uid) = length rqs"
    by (simp_all add: entries_def)
  have h: "hash (setPoints p (entries table uid ! i)) = hash (entries table uid ! i)"
    by (simp add: setPoints_def)
  show ?thesis
    using verifyFrom_all_ok [OF ok, of 0] len ok
      verifyFrom_update [OF ok, of i 0 "setPoints p (entries table uid ! i)"] h
    by (simp add: verifyChain_def)
qed

text \<open>The digest of an entry covers its points: with an injective digest and a
  serialisation that tells different points apart, other points give another hash.\<close>

lemma calculateHash_points:
  assumes "inj H" and "\<forall>d q. q \<noteq> points d \<longrightarrow> S (d\<lparr>points := q\<rparr>) \<noteq> S d"
    and "p \<noteq> points (data b)"
  shows "calculateHash H S (setPoints p b) \<noteq> calculateHash H S b"
proof
  assume "calculateHash H S (setPoints p b) = calculateHash H S b"
  with assms(1)
  have "previousHash b @ decimal (timestamp b) @ S ((data b)\<lparr>points := p\<rparr>)
          @ decimal (nonce b)
        = previousHash b @ decimal (timestamp b) @ S (data b) @ decimal (nonce b)"
    by (simp add: calculateHash_def setPoints_def inj_eq)
  then have "S ((data b)\<lparr>points := p\<rparr>) = S (data b)" by simp
  with assms(2,3) show False by blast
qed

text \<open>
  C7: \<open>verifyChain\<close> is a round-trip tamper check. For every chain of \<open>N\<close> entries
  produced by appending through \<open>recordToBlockchain\<close>, \<open>verifyChain\<close> over those entries
  reports valid; and when the points of exactly one stored entry, at index \<open>i\<close>, are
  overwritten afterwards with another value, \<open>verifyChain\<close> reports \<open>i\<close>, the index of
  the first (and only) entry whose recomputed hash differs from its stored hash. The
  digest and the serialisation are parameters of the model; the tamper half holds for a
  digest without collisions and a serialisation that tells different points apart,
  which is what \<open>SHA256\<close> and \<open>JSON.stringify\<close> stand for.
\<close>

theorem verifyChain_round_trip:
  assumes "recordAll H S uid rqs [] = Some (Inr table)"
  shows "verifyChain H S (entries table uid) = Valid
         \<and> length (entries table uid) = length rqs
         \<and> (inj H \<and> (\<forall>d q. q \<noteq> points d \<longrightarrow> S (d\<lparr>points := q\<rparr>) \<noteq> S d)
              \<and> i < length rqs \<and> p \<noteq> points (data (entries table uid ! i))
            \<longrightarrow> verifyChain H S
                  ((entries table uid)[i := setPoints p (entries table uid ! i)])
                = TamperedAt i)"
proof -
  note o = verifyChain_overwrite [OF assms, of i p]
  have "verifyChain H S ((entries table uid)[i := setPoints p (entries table uid ! i)])
          = TamperedAt i"
    if inj: "inj H" and sep: "\<forall>d q. q \<noteq> points d \<longrightarrow> S (d\<lparr>points := q\<rparr>) \<noteq> S d"
      and i: "i < length rqs" and p: "p \<noteq> points (data (entries table uid ! i))"
  proof -
    from o i have "i < length (entries table uid)" by simp
    with o have "calculateHash H S (entries table uid ! i) = hash (entries table uid ! i)"
      by (simp add: list_all_length)
    with calculateHash_points [OF inj sep p]
    have "calculateHash H S (setPoints p (entries table uid ! i))
            \<noteq> hash (entries table uid ! i)"
      by simp
    with o i show ?thesis by simp
  qed
  with o show ?thesis by blast
qed

lemma toy_sha256_inj: "inj toy_sha256"
  by (auto simp: inj_def toy_sha256_def split: if_splits)

lemma unary_sign:
  assumes "(if p < 0 then ''-'' else []) @ replicate (nat \<bar>p\<bar>) (CHR ''1'')
             = (if q < 0 then ''-'' else []) @ replicate (nat \<bar>q\<bar>) (CHR ''1'')"
  shows "p = (q::int)"
proof -
  have neg: "''-'' @ replicate n (CHR ''1'') \<noteq> replicate m (CHR ''1'')" for n m
    by (cases m) simp_all
  show ?thesis
  proof (cases "p < 0")
    case True
    show ?thesis
    proof (cases "q < 0")
      case True
      with \<open>p < 0\<close> assms
      have "replicate (nat \<bar>p\<bar>) (CHR ''1'') = replicate (nat \<bar>q\<bar>) (CHR ''1'')"
        by simp
      then have "nat \<bar>p\<bar> = nat \<bar>q\<bar>" by (simp add: replicate_eq_replicate)
      with True \<open>p < 0\<close> show ?thesis by simp
    next
      case False
      with \<open>p < 0\<close> assms neg [of "nat \<bar>p\<bar>" "nat \<bar>q\<bar>"] show ?thesis by simp
    qed
  next
    case False
    show ?thesis
    proof (cases "q < 0")
      case True
      with \<open>\<not> p < 0\<close> assms neg [of "nat \<bar>q\<bar>" "nat \<bar>p\<bar>"] show ?thesis by simp
    next
      case False
      with \<open>\<not> p < 0\<close> assms
      have "replicate (nat \<bar>p\<bar>) (CHR ''1'') = replicate (nat \<bar>q\<bar>) (CHR ''1'')"
        by simp
      then have "nat \<bar>p\<bar> = nat \<bar>q\<bar>" by (simp add: replicate_eq_replicate)
      with False \<open>\<not> p < 0\<close> show ?thesis by simp
    qed
  qed
qed

lemma unary_stringify_points:
  "\<forall>d q. q \<noteq> points d \<longrightarrow> unary_stringify (d\<lparr>points := q\<rparr>) \<noteq> unary_stringify d"
proof (intro allI impI notI)
  fix d :: block_data and q
  assume ne: "q \<noteq> points d"
    and e: "unary_stringify (d\<lparr>points := q\<rparr>) = unary_stringify d"
  from e have "(if q < 0 then ''-'' else []) @ replicate (nat \<bar>q\<bar>) (CHR ''1'')
     = (if points d < 0 then ''-'' else []) @ replicate (nat \<bar>points d\<bar>) (CHR ''1'')"
    by (simp add: unary_stringify_def)
  from unary_sign [OF this] ne show False by simp
qed

lemma record_requests:
  "recordAll toy_sha256 unary_stringify ''u1'' [request1, request2] []
     = Some (Inr [unary_row1, unary_row2])"
  by code_simp

theorem verifyChain_round_trip_witness:
  "recordAll toy_sha256 unary_stringify ''u1'' [request1, request2] []
     = Some (Inr [unary_row1, unary_row2])
   \<and> inj toy_sha256
   \<and> entries [unary_row1, unary_row2] ''u1'' = [unary_block1, unary_block2]
   \<and> points (data unary_block2) = 25
   \<and> verifyChain toy_sha256 unary_stringify [unary_block1, unary_block2] = Valid
   \<and> verifyChain toy_sha256 unary_stringify [unary_block1, setPoints (- 500) unary_block2]
       = TamperedAt 1"
proof -
  have e: "entries [unary_row1, unary_row2] ''u1'' = [unary_block1, unary_block2]"
    by (simp add: entries_def unary_row1_def unary_row2_def)
  have q: "points (data unary_block2) = 25" by (simp add: unary_block2_def)
  from verifyChain_round_trip [OF record_requests, where i = 1 and p = "- 500"]
    e q toy_sha256_inj unary_stringify_points record_requests
  show ?thesis by simp
qed

end
